theory Spec2Isabelle
  imports Main
begin

section \<open>JavaScript values\<close>

text \<open>
  The command \<^verbatim>\<open>reclaim\<close> of the Fabric CLI is untyped JavaScript: command-line
  options, fields of the network configuration and the arguments of the address builder
  are \<^verbatim>\<open>undefined\<close>, strings, numbers or booleans. Strings are ASCII text
  (\<open>char list\<close>). Numbers are integers or \<^verbatim>\<open>NaN\<close>; an \<open>int\<close> stands for
  the double of the same value, which is exact below \<open>2^53\<close> in magnitude.
\<close>

datatype jsval = JUndefined | JStr string | JNum int | JNaN | JBool bool

text \<open>Truthiness, as tested by \<^verbatim>\<open>!x\<close>, \<^verbatim>\<open>x && y\<close> and \<^verbatim>\<open>x ? a : b\<close>.\<close>

fun truthy :: "jsval \<Rightarrow> bool" where
  "truthy JUndefined = False"
| "truthy (JStr s) = (s \<noteq> [])"
| "truthy (JNum n) = (n \<noteq> 0)"
| "truthy JNaN = False"
| "truthy (JBool b) = b"

text \<open>Decimal rendering of a number, as string concatenation and template literals do.\<close>

definition digit_char :: "nat \<Rightarrow> char" where
  "digit_char d = ''0123456789'' ! d"

fun show_nat :: "nat \<Rightarrow> string" where
  "show_nat n = (if n < 10 then [digit_char n] else show_nat (n div 10) @ [digit_char (n mod 10)])"

declare show_nat.simps [simp del]

definition show_int :: "int \<Rightarrow> string" where
  "show_int i = (if i < 0 then CHR ''-'' # show_nat (nat (- i)) else show_nat (nat i))"

text \<open>\<^verbatim>\<open>ToString\<close>: what \<^verbatim>\<open>'' + x\<close> and \<^verbatim>\<open>`${x}`\<close> produce.\<close>

fun js_to_string :: "jsval \<Rightarrow> string" where
  "js_to_string JUndefined = ''undefined''"
| "js_to_string (JStr s) = s"
| "js_to_string (JNum n) = show_int n"
| "js_to_string JNaN = ''NaN''"
| "js_to_string (JBool b) = (if b then ''true'' else ''false'')"

text \<open>
  \<^verbatim>\<open>s.split(c)\<close> for a one-character separator: the pieces between the separators,
  empty pieces kept; the result is never empty (\<^verbatim>\<open>''.split(':')\<close> is \<^verbatim>\<open>['']\<close>).
\<close>

fun split_on :: "char \<Rightarrow> string \<Rightarrow> string list" where
  "split_on c [] = [[]]"
| "split_on c (x # xs) =
     (if x = c then [] # split_on c xs
      else (case split_on c xs of
              [] \<Rightarrow> [[x]]
            | y # ys \<Rightarrow> (x # y) # ys))"

text \<open>\<^verbatim>\<open>a[i]\<close> on an array of strings: \<^verbatim>\<open>undefined\<close> beyond the end.\<close>

definition js_index :: "string list \<Rightarrow> nat \<Rightarrow> jsval" where
  "js_index a i = (if i < length a then JStr (a ! i) else JUndefined)"

text \<open>
  \<^verbatim>\<open>parseInt(x)\<close> with no radix: \<^verbatim>\<open>ToString\<close>, leading white space dropped, an
  optional sign, an optional \<^verbatim>\<open>0x\<close>/\<^verbatim>\<open>0X\<close> prefix selecting radix 16, then the longest
  run of digits of the radix; \<^verbatim>\<open>NaN\<close> when that run is empty.
\<close>

definition is_js_space :: "char \<Rightarrow> bool" where
  "is_js_space c = (c \<in> set [CHR 0x09, CHR 0x0A, CHR 0x0B, CHR 0x0C, CHR 0x0D, CHR 0x20])"

definition digit_val :: "char \<Rightarrow> nat option" where
  "digit_val c =
     (let n = (of_char c :: nat) in
      if 48 \<le> n \<and> n \<le> 57 then Some (n - 48)
      else if 97 \<le> n \<and> n \<le> 102 then Some (n - 87)
      else if 65 \<le> n \<and> n \<le> 70 then Some (n - 55)
      else None)"

definition is_digit_in :: "nat \<Rightarrow> char \<Rightarrow> bool" where
  "is_digit_in r c = (case digit_val c of None \<Rightarrow> False | Some d \<Rightarrow> d < r)"

definition digits_value :: "nat \<Rightarrow> string \<Rightarrow> nat" where
  "digits_value r z = foldl (\<lambda>a c. a * r + (case digit_val c of None \<Rightarrow> 0 | Some d \<Rightarrow> d)) 0 z"

definition parseInt :: "jsval \<Rightarrow> jsval" where
  "parseInt x =
     (let s = dropWhile is_js_space (js_to_string x);
          negative = (take 1 s = ''-'');
          s1 = (if take 1 s = ''-'' \<or> take 1 s = ''+'' then drop 1 s else s);
          hex = (take 2 s1 = ''0x'' \<or> take 2 s1 = ''0X'');
          r = (if hex then 16 else 10);
          s2 = (if hex then drop 2 s1 else s1);
          z = takeWhile (is_digit_in r) s2
      in if z = [] then JNaN
         else JNum ((if negative then - 1 else 1) * int (digits_value r z)))"

text \<open>\<^verbatim>\<open>isNaN\<close>; the command applies it to the number that \<^verbatim>\<open>parseInt\<close> returned.\<close>

definition isNaN :: "jsval \<Rightarrow> bool" where
  "isNaN x = (x = JNaN)"

section \<open>The environment of the command\<close>

text \<open>
  The helpers imported from \<^verbatim>\<open>helpers/helpers\<close>, \<^verbatim>\<open>helpers/fabric-functions\<close> and
  the interoperation SDK are parameters of the model. A helper that is awaited returns
  a sum, \<open>Inl\<close> holding the text of what it throws, and its call is an event of the
  run. The two configuration lookups \<^verbatim>\<open>getNetworkConfig\<close> and \<^verbatim>\<open>getChaincodeConfig\<close>
  are functions of the environment: what they do besides returning the configuration
  is not part of the model.
\<close>

record netconfig =
  relayEndpoint :: jsval
  connProfilePath :: jsval
  channelName :: jsval
  chaincode :: jsval
  mspId :: jsval

text \<open>The argument object of \<^verbatim>\<open>fabricHelper\<close> (the logger left out).\<close>

record fabric_args =
  fh_channel :: jsval
  fh_contractName :: string
  fh_connProfilePath :: jsval
  fh_networkName :: jsval
  fh_mspId :: jsval
  fh_discoveryEnabled :: bool
  fh_userString :: jsval

text \<open>The argument object of \<^verbatim>\<open>getLocalAssetPledgeDetails\<close> (the logger left out).\<close>

record pledge_query =
  pq_sourceNetworkName :: jsval
  pq_pledgeId :: jsval
  pq_caller :: jsval
  pq_ccType :: jsval

text \<open>
  The pledge record it returns, read through its getters \<^verbatim>\<open>getRecipient()\<close>,
  \<^verbatim>\<open>getRemotenetworkid()\<close> and \<^verbatim>\<open>getExpirytimesecs()\<close> (an unsigned number).
\<close>

record pledge =
  getRecipient :: string
  getRemotenetworkid :: string
  getExpirytimesecs :: nat

record invoke_object =
  io_channel :: jsval
  io_ccFunc :: string
  io_ccArgs :: "jsval list"
  io_contractName :: jsval

record view_request =
  vr_address :: string
  vr_Sign :: bool

text \<open>
  The arguments of \<^verbatim>\<open>InteroperableHelper.interopFlow\<close>, in order (the contract handle
  left out); \<open>fr_flag\<close> is the literal \<^verbatim>\<open>false\<close> passed after the key and certificate.
\<close>

record flow_request =
  fr_networkName :: jsval
  fr_invokeObject :: invoke_object
  fr_mspId :: jsval
  fr_relayEndpoint :: jsval
  fr_replaceIndices :: "nat list"
  fr_views :: "view_request list"
  fr_keyCert :: string
  fr_flag :: bool
  fr_relayTls :: bool
  fr_relayTlsCAFiles :: "string list"

text \<open>
  A view of the response: the text of \<^verbatim>\<open>JSON.stringify(view.toObject())\<close> and what
  \<^verbatim>\<open>getResponseDataFromView(view)\<close> returns or throws.
\<close>

record view =
  view_json :: string
  view_data :: "string + string"

record flow_response =
  resp_views :: "view list"
  resp_result :: jsval

record env =
  getNetworkConfig :: "jsval \<Rightarrow> netconfig"
  getChaincodeConfig :: "jsval \<Rightarrow> string \<Rightarrow> nat list"
  DEFAULT_CHAINCODE :: "string option"
  fabricHelper :: "fabric_args \<Rightarrow> string + unit"
  wallet_get :: "jsval \<Rightarrow> string option"
  base64 :: "string \<Rightarrow> string"
  getLocalAssetPledgeDetails :: "pledge_query \<Rightarrow> string + pledge"
  getKeyAndCertForRemoteRequestbyUserName :: "jsval \<Rightarrow> string + string"
  interopFlow :: "flow_request \<Rightarrow> string + flow_response"

section \<open>Effects and outcomes\<close>

text \<open>
  What a call does to the outside world is the list of its events, in order, and the way
  it ends: it returns, it terminates the process (\<^verbatim>\<open>process.exit\<close>) or it throws.
\<close>

datatype event =
    CommandHelp
  | SetLoggerLevel string
  | LoggerDebug string
  | LoggerInfo string
  | LoggerError string
  | PrintError string
  | ConsoleLog string
  | ConsoleLogObject invoke_object
  | FabricHelper fabric_args
  | WalletGet jsval
  | GetLocalAssetPledgeDetails pledge_query
  | GetKeyAndCert jsval
  | SpinnerStart string
  | SpinnerSucceed string
  | SpinnerFail string
  | InteropFlow flow_request

datatype 'a completion = Return 'a | Exit int | Throw string

type_synonym 'a effect = "event list \<times> 'a completion"

text \<open>The events \<open>evs\<close> happen, then the computation \<open>r\<close>.\<close>

definition after :: "event list \<Rightarrow> 'a effect \<Rightarrow> 'a effect" where
  "after evs r = (evs @ fst r, snd r)"

text \<open>The requests sent to the interoperation flow in a trace.\<close>

fun flows :: "event list \<Rightarrow> flow_request list" where
  "flows [] = []"
| "flows (InteropFlow r # t) = r # flows t"
| "flows (_ # t) = flows t"

section \<open>The address of the claim-status view\<close>

text \<open>
  The guard on a network configuration (lines 139 and 247): the connection profile
  path, the channel name and the chaincode name must all be truthy.
\<close>

definition resolvable :: "netconfig \<Rightarrow> bool" where
  "resolvable c =
     (\<not> (\<not> truthy (connProfilePath c) \<or> \<not> truthy (channelName c) \<or> \<not> truthy (chaincode c)))"

text \<open>
  \<^verbatim>\<open>getReclaimViewAddress\<close> (lines 242-265). \<^verbatim>\<open>getNetworkConfig\<close> is a lookup in
  the environment; \<^verbatim>\<open>console.log\<close> is an event and \<^verbatim>\<open>process.exit(1)\<close> ends the call.
\<close>

definition getReclaimViewAddress ::
  "env \<Rightarrow> jsval \<Rightarrow> jsval \<Rightarrow> jsval \<Rightarrow> jsval \<Rightarrow> jsval \<Rightarrow> jsval \<Rightarrow> jsval \<Rightarrow> jsval \<Rightarrow> jsval
     \<Rightarrow> string effect" where
  "getReclaimViewAddress e assetCategory assetType assetIdOrQuantity pledgeId pledgerCert
       sourceNetwork recipientCert destNetwork pledgeExpiryTimeSecs =
     (let destNetConfig = getNetworkConfig e destNetwork in
      if \<not> truthy (connProfilePath destNetConfig) \<or> \<not> truthy (channelName destNetConfig)
         \<or> \<not> truthy (chaincode destNetConfig)
      then ([], Return '''')
      else
        let address = js_to_string (relayEndpoint destNetConfig) @ ''/''
              @ js_to_string destNetwork @ ''/''
              @ js_to_string (channelName destNetConfig) @ '':''
              @ js_to_string (chaincode destNetConfig) @ '':'';
            rest = '':'' @ js_to_string pledgeId @ '':'' @ js_to_string assetType @ '':''
              @ js_to_string assetIdOrQuantity @ '':'' @ js_to_string recipientCert @ '':''
              @ js_to_string pledgerCert @ '':'' @ js_to_string sourceNetwork @ '':''
              @ js_to_string pledgeExpiryTimeSecs
        in if assetCategory = JStr ''bond''
           then ([], Return ((address @ ''GetAssetClaimStatus'') @ rest))
           else if assetCategory = JStr ''token''
           then ([], Return ((address @ ''GetTokenAssetClaimStatus'') @ rest))
           else ([ConsoleLog (''Unecognized asset category: '' @ js_to_string assetCategory)],
                 Exit 1))"

text \<open>
  The address format as the specification words it:
  \<^verbatim>\<open><relayEndpoint>/<network>/<channel>:<contract>:<function>:<arg1>:...:<argN>\<close>,
  every part written as it is.
\<close>

definition address_format ::
  "string \<Rightarrow> string \<Rightarrow> string \<Rightarrow> string \<Rightarrow> string \<Rightarrow> string list \<Rightarrow> string" where
  "address_format relay network channel contract func args =
     relay @ ''/'' @ network @ ''/'' @ channel @ '':'' @ contract @ '':'' @ func
       @ concat (map (\<lambda>a. '':'' @ a) args)"

text \<open>The positional arguments of the claim-status query, in the order of the address.\<close>

definition claim_status_args ::
  "jsval \<Rightarrow> jsval \<Rightarrow> jsval \<Rightarrow> jsval \<Rightarrow> jsval \<Rightarrow> jsval \<Rightarrow> jsval \<Rightarrow> string list" where
  "claim_status_args pledgeId assetType assetIdOrQuantity recipientCert pledgerCert
       sourceNetwork pledgeExpiryTimeSecs =
     map js_to_string [pledgeId, assetType, assetIdOrQuantity, recipientCert, pledgerCert,
       sourceNetwork, pledgeExpiryTimeSecs]"

section \<open>The command\<close>

text \<open>
  \<^verbatim>\<open>command.run\<close> (lines 33-238), cut at the points where later statements need a value
  that an earlier one produced: \<open>run\<close> (lines 38-113), \<open>run_params\<close> (lines 115-135),
  \<open>run_network\<close> (lines 137-170), \<open>run_pledged\<close> (lines 172-181), \<open>run_flow\<close>
  (lines 183-237). The parsed command line is \<^verbatim>\<open>options\<close>: the value of each option name,
  \<^verbatim>\<open>undefined\<close> when the option was not given.
\<close>

type_synonym options = "string \<Rightarrow> jsval"

text \<open>The option names that the help of the command lists (lines 44-83).\<close>

definition help_options :: "string list" where
  "help_options = [''--debug'', ''--source-network'', ''--user'', ''--type'', ''--pledge-id'',
     ''--param'', ''--relay-tls'', ''--relay-tls-ca-files'']"

text \<open>\<^verbatim>\<open>`${a}`\<close> for an array: the elements joined by commas, \<^verbatim>\<open>undefined\<close> as nothing.\<close>

fun js_array_to_string :: "jsval list \<Rightarrow> string" where
  "js_array_to_string [] = ''''"
| "js_array_to_string [x] = (if x = JUndefined then '''' else js_to_string x)"
| "js_array_to_string (x # xs) =
     (if x = JUndefined then '''' else js_to_string x) @ '','' @ js_array_to_string xs"

text \<open>
  Lines 195-198: the list of CA files is the option split at colons when the option is
  truthy; a truthy option that is not a string has no \<^verbatim>\<open>split\<close> method.
\<close>

definition relayTlsCAFiles :: "options \<Rightarrow> string + string list" where
  "relayTlsCAFiles options =
     (if truthy (options ''relay-tls-ca-files'')
      then (case options ''relay-tls-ca-files'' of
              JStr s \<Rightarrow> Inr (split_on CHR '':'' s)
            | _ \<Rightarrow> Inl ''TypeError: options.relay-tls-ca-files.split is not a function'')
      else Inr [])"

text \<open>Lines 224-236: what is logged once \<^verbatim>\<open>interopFlow\<close> has returned or thrown.\<close>

definition flow_failed :: "string \<Rightarrow> event list" where
  "flow_failed x = [SpinnerFail ''Error verifying and storing state'',
     LoggerError (''Error verifying and storing state: '' @ x)]"

definition flow_report :: "string \<Rightarrow> invoke_object \<Rightarrow> string + flow_response \<Rightarrow> event list" where
  "flow_report applicationFunction invokeObject r =
     (case r of
        Inl x \<Rightarrow> flow_failed x
      | Inr interopFlowResponse \<Rightarrow>
          (case resp_views interopFlowResponse of
             [] \<Rightarrow> flow_failed ''TypeError: Cannot read properties of undefined''
           | v # _ \<Rightarrow>
               LoggerInfo (''View from remote network: '' @ view_json v
                 @ ''. Interop Flow result: ''
                 @ (if truthy (resp_result interopFlowResponse)
                    then js_to_string (resp_result interopFlowResponse) else ''successful''))
               # (case view_data v of
                    Inl x \<Rightarrow> flow_failed x
                  | Inr remoteValue \<Rightarrow>
                      [SpinnerSucceed (''Called Function '' @ applicationFunction
                         @ ''. With Args: '' @ js_array_to_string (io_ccArgs invokeObject)
                         @ '' '' @ remoteValue)])))"

definition run_flow :: "env \<Rightarrow> options \<Rightarrow> jsval \<Rightarrow> netconfig \<Rightarrow> pledge \<Rightarrow> string \<Rightarrow> unit effect" where
  "run_flow e options assetCategory netConfig pledgeAssetDetails viewAddress =
     (let networkName = options ''source-network'';
          channel = channelName netConfig;
          username = options ''user''
      in after [GetKeyAndCert username]
          (case getKeyAndCertForRemoteRequestbyUserName e username of
             Inl keyCertError \<Rightarrow>
               ([PrintError (''Error getting key and cert '' @ keyCertError)], Return ())
           | Inr keyCert \<Rightarrow>
               after [SpinnerStart ''Starting Interop Query for ClaimStatus in destination network'']
                (let appChaincodeId = chaincode netConfig;
                     applicationFunction =
                       (if assetCategory = JStr ''token'' then ''ReclaimTokenAsset''
                        else ''ReclaimAsset'');
                     replaceIndices = getChaincodeConfig e appChaincodeId applicationFunction;
                     args = [options ''pledge-id'', JStr (getRecipient pledgeAssetDetails),
                       JStr (getRemotenetworkid pledgeAssetDetails), JStr '''']
                 in case relayTlsCAFiles options of
                      Inl x \<Rightarrow> ([], Throw x)
                    | Inr caFiles \<Rightarrow>
                        let invokeObject = \<lparr>io_channel = channel, io_ccFunc = applicationFunction,
                              io_ccArgs = args, io_contractName = appChaincodeId\<rparr>;
                            request = \<lparr>fr_networkName = networkName,
                              fr_invokeObject = invokeObject,
                              fr_mspId = mspId netConfig,
                              fr_relayEndpoint = relayEndpoint netConfig,
                              fr_replaceIndices = replaceIndices,
                              fr_views = [\<lparr>vr_address = viewAddress, vr_Sign = True\<rparr>],
                              fr_keyCert = keyCert,
                              fr_flag = False,
                              fr_relayTls = (options ''relay-tls'' = JStr ''true''),
                              fr_relayTlsCAFiles = caFiles\<rparr>
                        in (ConsoleLogObject invokeObject # InteropFlow request
                              # flow_report applicationFunction invokeObject
                                  (interopFlow e request),
                            Exit 0))))"

definition run_pledged ::
  "env \<Rightarrow> options \<Rightarrow> jsval \<Rightarrow> jsval \<Rightarrow> jsval \<Rightarrow> netconfig \<Rightarrow> string \<Rightarrow> pledge \<Rightarrow> unit effect" where
  "run_pledged e options assetType assetCategory assetIdOrQuantity netConfig userCert
       pledgeAssetDetails =
     (case getReclaimViewAddress e assetCategory assetType assetIdOrQuantity
             (options ''pledge-id'') (JStr userCert) (options ''source-network'')
             (JStr (getRecipient pledgeAssetDetails))
             (JStr (getRemotenetworkid pledgeAssetDetails))
             (JNum (int (getExpirytimesecs pledgeAssetDetails))) of
        (evs, Return viewAddress) \<Rightarrow>
          after evs
           (if viewAddress = ''''
            then ([PrintError (''Please use a valid --dest-network. No valid environment found for ''
                     @ js_to_string (options ''dest-network'') @ '' '')], Return ())
            else run_flow e options assetCategory netConfig pledgeAssetDetails viewAddress)
      | (evs, Exit n) \<Rightarrow> (evs, Exit n)
      | (evs, Throw x) \<Rightarrow> (evs, Throw x))"

definition run_network :: "env \<Rightarrow> options \<Rightarrow> jsval \<Rightarrow> jsval \<Rightarrow> jsval \<Rightarrow> unit effect" where
  "run_network e options assetType assetCategory assetIdOrQuantity =
     (let networkName = options ''source-network'';
          netConfig = getNetworkConfig e networkName
      in if \<not> truthy (connProfilePath netConfig) \<or> \<not> truthy (channelName netConfig)
            \<or> \<not> truthy (chaincode netConfig)
         then ([PrintError (''Please use a valid --source-network. No valid environment found for ''
                  @ js_to_string (options ''source-network'') @ '' '')], Return ())
         else
           let channel = channelName netConfig;
               contractName = (case DEFAULT_CHAINCODE e of
                                 None \<Rightarrow> ''interop''
                               | Some c \<Rightarrow> if c \<noteq> [] then c else ''interop'');
               username = options ''user'';
               helperArgs = \<lparr>fh_channel = channel, fh_contractName = contractName,
                 fh_connProfilePath = connProfilePath netConfig, fh_networkName = networkName,
                 fh_mspId = mspId netConfig, fh_discoveryEnabled = True,
                 fh_userString = username\<rparr>
           in after [FabricHelper helperArgs]
               (case fabricHelper e helperArgs of
                  Inl x \<Rightarrow> ([], Throw x)
                | Inr _ \<Rightarrow>
                    after [WalletGet username]
                     (case wallet_get e username of
                        None \<Rightarrow> ([], Throw ''TypeError: Cannot read properties of undefined'')
                      | Some certificate \<Rightarrow>
                          let userCert = base64 e certificate;
                              query = \<lparr>pq_sourceNetworkName = networkName,
                                pq_pledgeId = options ''pledge-id'', pq_caller = username,
                                pq_ccType = assetCategory\<rparr>
                          in after [GetLocalAssetPledgeDetails query]
                              (case getLocalAssetPledgeDetails e query of
                                 Inl x \<Rightarrow> ([], Throw x)
                               | Inr pledgeAssetDetails \<Rightarrow>
                                   run_pledged e options assetType assetCategory
                                     assetIdOrQuantity netConfig userCert
                                     pledgeAssetDetails))))"

definition run_params :: "env \<Rightarrow> options \<Rightarrow> unit effect" where
  \<open>run_params e options =
     (case options ''param'' of
        JStr p \<Rightarrow>
          (let params = split_on CHR '':'' p;
               assetType = js_index params 0;
               assetCategory = options ''type''
           in if truthy assetCategory \<and> \<not> truthy (js_index params 1)
              then ([PrintError ''assetId needs to be specified for "bond" type''], Return ())
              else if truthy assetCategory \<and> \<not> truthy (js_index params 1)
              then ([PrintError ''num of units needs to be specified for "token" type''],
                    Return ())
              else if assetCategory = JStr ''token'' \<and> isNaN (parseInt (js_index params 1))
              then ([PrintError ''num of units must be an integer for "token" type''],
                    Return ())
              else
                let assetIdOrQuantity =
                      (if assetCategory = JStr ''token'' then parseInt (js_index params 1)
                       else js_index params 1)
                in run_network e options assetType assetCategory assetIdOrQuantity)
      | _ \<Rightarrow> ([], Throw ''TypeError: options.param.split is not a function''))\<close>

text \<open>Lines 90-93: what \<^verbatim>\<open>--debug=true\<close> does before the arguments are checked.\<close>

definition debug_logging :: "options \<Rightarrow> event list" where
  "debug_logging options =
     (if options ''debug'' = JStr ''true''
      then [SetLoggerLevel ''debug'', LoggerDebug ''Debugging is enabled'']
      else [])"

definition run :: "env \<Rightarrow> options \<Rightarrow> unit effect" where
  "run e options =
     (if truthy (options ''help'') \<or> truthy (options ''h'')
      then ([CommandHelp], Return ())
      else
        after (debug_logging options)
         (if \<not> truthy (options ''source-network'')
          then ([PrintError ''--source-network needs to be specified''], Return ())
          else if \<not> truthy (options ''user'')
          then ([PrintError ''--user needs to be specified''], Return ())
          else if \<not> truthy (options ''type'')
          then ([PrintError ''--type of network needs to be specified''], Return ())
          else if \<not> truthy (options ''param'')
          then ([PrintError ''--param needs to be specified''], Return ())
          else run_params e options))"

section \<open>Parsing an address\<close>

text \<open>
  The builder has no inverse among the sources: the parser of view addresses lives in
  the relay and the drivers. The structured locator of the specification,
  \<^verbatim>\<open>{relayEndpoint, network, channel, contract, function, args[]}\<close>:
\<close>

record remote_view_address =
  rva_relayEndpoint :: string
  rva_network :: string
  rva_channel :: string
  rva_contract :: string
  rva_function :: string
  rva_args :: "string list"

text \<open>
  Modelled from the spec: the text before the first occurrence of a separator and the
  text after it, as the parser needs them to read the two slash-separated parts of the
  address format; nothing when the separator does not occur.
\<close>

definition cut_at :: "char \<Rightarrow> string \<Rightarrow> (string \<times> string) option" where
  "cut_at c s =
     (if c \<in> set s
      then Some (takeWhile (\<lambda>x. x \<noteq> c) s, drop 1 (dropWhile (\<lambda>x. x \<noteq> c) s))
      else None)"

text \<open>
  Modelled from the spec: the parser of view addresses, which is not among the sources.
  It reads the format
  \<^verbatim>\<open><relayEndpoint>/<network>/<channel>:<contract>:<function>:<arg1>:...:<argN>\<close>
  from the left: the relay endpoint up to the first slash, the network up to the next
  slash, and the rest split at every colon into channel, contract, function and
  arguments, with no unescaping. An address with fewer parts is not parsed.
\<close>

definition parse_address :: "string \<Rightarrow> remote_view_address option" where
  "parse_address a =
     (case cut_at CHR ''/'' a of
        None \<Rightarrow> None
      | Some (relay, r) \<Rightarrow>
          (case cut_at CHR ''/'' r of
             None \<Rightarrow> None
           | Some (network, v) \<Rightarrow>
               (case split_on CHR '':'' v of
                  channel # contract # func # args \<Rightarrow>
                    Some \<lparr>rva_relayEndpoint = relay, rva_network = network,
                      rva_channel = channel, rva_contract = contract, rva_function = func,
                      rva_args = args\<rparr>
                | _ \<Rightarrow> None)))"

section \<open>An example deployment\<close>

text \<open>
  Two networks with relays, as in the test network of the documentation; a wallet holding
  the identity of \<^verbatim>\<open>alice\<close>, whose certificate is the text \<^verbatim>\<open>alice\<close> (in base 64,
  \<^verbatim>\<open>YWxpY2U=\<close>); a pledge \<^verbatim>\<open>p1\<close> made to \<^verbatim>\<open>network2\<close> and a pledge
  \<^verbatim>\<open>p9\<close> made to a network that the configuration does not know.
\<close>

definition example_config :: "jsval \<Rightarrow> netconfig" where
  "example_config n =
     (if n = JStr ''network1''
      then \<lparr>relayEndpoint = JStr ''localhost:9080'', connProfilePath = JStr ''ccp1.json'',
            channelName = JStr ''mychannel'', chaincode = JStr ''simpleassettransfer'',
            mspId = JStr ''Org1MSP''\<rparr>
      else if n = JStr ''network2''
      then \<lparr>relayEndpoint = JStr ''localhost:9083'', connProfilePath = JStr ''ccp2.json'',
            channelName = JStr ''mychannel'', chaincode = JStr ''simpleassettransfer'',
            mspId = JStr ''Org1MSP''\<rparr>
      else \<lparr>relayEndpoint = JStr '''', connProfilePath = JStr '''', channelName = JStr '''',
            chaincode = JStr '''', mspId = JStr ''''\<rparr>)"

definition example_pledges :: "pledge_query \<Rightarrow> string + pledge" where
  "example_pledges q =
     (if pq_pledgeId q = JStr ''p1''
      then Inr \<lparr>getRecipient = ''Ym9i'', getRemotenetworkid = ''network2'',
                getExpirytimesecs = 1700000000\<rparr>
      else if pq_pledgeId q = JStr ''p9''
      then Inr \<lparr>getRecipient = ''Ym9i'', getRemotenetworkid = ''network9'',
                getExpirytimesecs = 1700000000\<rparr>
      else Inl ''Error: no pledge with this id'')"

definition example_env :: env where
  "example_env =
     \<lparr>getNetworkConfig = example_config,
      getChaincodeConfig = (\<lambda>c f. [3]),
      DEFAULT_CHAINCODE = None,
      fabricHelper = (\<lambda>a. Inr ()),
      wallet_get = (\<lambda>u. if u = JStr ''alice'' then Some ''alice'' else None),
      base64 = (\<lambda>s. ''YWxpY2U=''),
      getLocalAssetPledgeDetails = example_pledges,
      getKeyAndCertForRemoteRequestbyUserName = (\<lambda>u. Inr ''key-and-cert-of-alice''),
      interopFlow = (\<lambda>r. Inr \<lparr>resp_views = [\<lparr>view_json = ''{}'', view_data = Inr ''false''\<rparr>],
                               resp_result = JUndefined\<rparr>)\<rparr>"

text \<open>A command line, as the list of the options given.\<close>

definition options_of :: "(string \<times> jsval) list \<Rightarrow> options" where
  "options_of kvs k = (case map_of kvs k of None \<Rightarrow> JUndefined | Some v \<Rightarrow> v)"

text \<open>Command lines of \<^verbatim>\<open>alice\<close> on \<^verbatim>\<open>network1\<close>.\<close>

definition reclaim_bond :: options where
  "reclaim_bond = options_of [(''source-network'', JStr ''network1''), (''user'', JStr ''alice''),
     (''type'', JStr ''bond''), (''pledge-id'', JStr ''p1''), (''param'', JStr ''bond01:a03'')]"

definition reclaim_token_50 :: options where
  "reclaim_token_50 = options_of [(''source-network'', JStr ''network1''),
     (''user'', JStr ''alice''), (''type'', JStr ''token''), (''pledge-id'', JStr ''p1''),
     (''param'', JStr ''token1:50'')]"




definition reclaim_gold :: options where
  "reclaim_gold = options_of [(''source-network'', JStr ''network1''), (''user'', JStr ''alice''),
     (''type'', JStr ''gold''), (''pledge-id'', JStr ''p1''), (''param'', JStr ''bond01:a03'')]"

definition reclaim_unknown_destination :: options where
  "reclaim_unknown_destination = options_of [(''source-network'', JStr ''network1''),
     (''user'', JStr ''alice''), (''type'', JStr ''bond''), (''pledge-id'', JStr ''p9''),
     (''param'', JStr ''bond01:a03'')]"

definition reclaim_token_unknown_destination :: options where
  "reclaim_token_unknown_destination = options_of [(''source-network'', JStr ''network1''),
     (''user'', JStr ''alice''), (''type'', JStr ''token''), (''pledge-id'', JStr ''p9''),
     (''param'', JStr ''token1:50'')]"

definition reclaim_dest_network_option :: options where
  "reclaim_dest_network_option = options_of [(''source-network'', JStr ''network1''),
     (''user'', JStr ''alice''), (''type'', JStr ''bond''), (''pledge-id'', JStr ''p9''),
     (''param'', JStr ''bond01:a03''), (''dest-network'', JStr ''network2'')]"

definition reclaim_no_user :: options where
  "reclaim_no_user = options_of [(''source-network'', JStr ''network1''),
     (''type'', JStr ''bond''), (''pledge-id'', JStr ''p1''), (''param'', JStr ''bond01:a03'')]"

definition reclaim_help_no_user :: options where
  "reclaim_help_no_user = options_of [(''help'', JBool True),
     (''source-network'', JStr ''network1''), (''type'', JStr ''bond''),
     (''pledge-id'', JStr ''p1''), (''param'', JStr ''bond01:a03'')]"

text \<open>
  The flow request that a reclaim of pledge \<^verbatim>\<open>p1\<close> sends in this deployment, for a local
  function and a view address.
\<close>

definition example_request :: "string \<Rightarrow> string \<Rightarrow> flow_request" where
  "example_request func address =
     \<lparr>fr_networkName = JStr ''network1'',
      fr_invokeObject =
        \<lparr>io_channel = JStr ''mychannel'', io_ccFunc = func,
         io_ccArgs = [JStr ''p1'', JStr ''Ym9i'', JStr ''network2'', JStr ''''],
         io_contractName = JStr ''simpleassettransfer''\<rparr>,
      fr_mspId = JStr ''Org1MSP'', fr_relayEndpoint = JStr ''localhost:9080'',
      fr_replaceIndices = [3],
      fr_views = [\<lparr>vr_address = address, vr_Sign = True\<rparr>],
      fr_keyCert = ''key-and-cert-of-alice'', fr_flag = False, fr_relayTls = False,
      fr_relayTlsCAFiles = []\<rparr>"

section \<open>Properties\<close>

lemma after_simps [simp]: "fst (after evs r) = evs @ fst r" "snd (after evs r) = snd r"
  by (simp_all add: after_def)

lemma flows_append [simp]: "flows (xs @ ys) = flows xs @ flows ys"
  by (induction xs rule: flows.induct) simp_all

lemma flows_flow_failed [simp]: "flows (flow_failed x) = []"
  by (simp add: flow_failed_def)

lemma flows_flow_report [simp]: "flows (flow_report f io r) = []"
  by (simp add: flow_report_def split: sum.splits list.splits)

lemma flows_getReclaimViewAddress [simp]:
  "flows (fst (getReclaimViewAddress e c t q p pc s rc d x)) = []"
  by (simp add: getReclaimViewAddress_def Let_def)

lemma flows_run_flow:
  assumes "r \<in> set (flows (fst (run_flow e options assetCategory netConfig pledgeAssetDetails viewAddress)))"
  shows "fr_views r = [\<lparr>vr_address = viewAddress, vr_Sign = True\<rparr>]
       \<and> fr_networkName r = options ''source-network''
       \<and> fr_mspId r = mspId netConfig
       \<and> fr_relayEndpoint r = relayEndpoint netConfig
       \<and> io_channel (fr_invokeObject r) = channelName netConfig
       \<and> io_contractName (fr_invokeObject r) = chaincode netConfig
       \<and> io_ccFunc (fr_invokeObject r) =
            (if assetCategory = JStr ''token'' then ''ReclaimTokenAsset'' else ''ReclaimAsset'')
       \<and> io_ccArgs (fr_invokeObject r) =
            [options ''pledge-id'', JStr (getRecipient pledgeAssetDetails),
             JStr (getRemotenetworkid pledgeAssetDetails), JStr '''']"
  using assms by (auto simp add: run_flow_def Let_def split: sum.splits)

lemma flows_run_pledged:
  assumes "r \<in> set (flows (fst (run_pledged e options assetType assetCategory assetIdOrQuantity
             netConfig userCert pledgeAssetDetails)))"
  shows "\<exists>a. getReclaimViewAddress e assetCategory assetType assetIdOrQuantity
             (options ''pledge-id'') (JStr userCert) (options ''source-network'')
             (JStr (getRecipient pledgeAssetDetails))
             (JStr (getRemotenetworkid pledgeAssetDetails))
             (JNum (int (getExpirytimesecs pledgeAssetDetails))) = ([], Return a)
           \<and> a \<noteq> ''''
           \<and> r \<in> set (flows (fst (run_flow e options assetCategory netConfig
                 pledgeAssetDetails a)))"
proof -
  let ?b = "getReclaimViewAddress e assetCategory assetType assetIdOrQuantity
             (options ''pledge-id'') (JStr userCert) (options ''source-network'')
             (JStr (getRecipient pledgeAssetDetails))
             (JStr (getRemotenetworkid pledgeAssetDetails))
             (JNum (int (getExpirytimesecs pledgeAssetDetails)))"
  obtain evs c where b: "?b = (evs, c)" by (cases ?b)
  have evs: "flows evs = []"
    using flows_getReclaimViewAddress [of e assetCategory assetType assetIdOrQuantity
      "options ''pledge-id''" "JStr userCert" "options ''source-network''"
      "JStr (getRecipient pledgeAssetDetails)" "JStr (getRemotenetworkid pledgeAssetDetails)"
      "JNum (int (getExpirytimesecs pledgeAssetDetails))"] b by simp
  show ?thesis
  proof (cases c)
    case (Return a)
    have "evs = []"
      using b Return by (auto simp add: getReclaimViewAddress_def Let_def split: if_splits)
    with assms b Return evs show ?thesis
      by (auto simp add: run_pledged_def split: if_splits)
  next
    case (Exit n)
    with assms b evs show ?thesis by (simp add: run_pledged_def)
  next
    case (Throw x)
    with assms b evs show ?thesis by (simp add: run_pledged_def)
  qed
qed

lemma flows_run_network:
  assumes "r \<in> set (flows (fst (run_network e options assetType assetCategory assetIdOrQuantity)))"
  shows "resolvable (getNetworkConfig e (options ''source-network''))
       \<and> (\<exists>certificate pledgeAssetDetails.
            wallet_get e (options ''user'') = Some certificate
          \<and> getLocalAssetPledgeDetails e
               \<lparr>pq_sourceNetworkName = options ''source-network'',
                pq_pledgeId = options ''pledge-id'', pq_caller = options ''user'',
                pq_ccType = assetCategory\<rparr> = Inr pledgeAssetDetails
          \<and> r \<in> set (flows (fst (run_pledged e options assetType assetCategory
                 assetIdOrQuantity (getNetworkConfig e (options ''source-network''))
                 (base64 e certificate) pledgeAssetDetails))))"
  using assms
  by (auto simp add: run_network_def resolvable_def Let_def
      split: if_splits sum.splits option.splits)

lemma flows_run_params:
  assumes "r \<in> set (flows (fst (run_params e options)))"
  shows "\<exists>p. options ''param'' = JStr p
       \<and> r \<in> set (flows (fst (run_network e options (js_index (split_on CHR '':'' p) 0)
             (options ''type'')
             (if options ''type'' = JStr ''token'' then parseInt (js_index (split_on CHR '':'' p) 1)
              else js_index (split_on CHR '':'' p) 1))))"
  using assms
  by (auto simp add: run_params_def Let_def split: jsval.splits if_splits)

lemma flows_run:
  assumes "r \<in> set (flows (fst (run e options)))"
  shows "r \<in> set (flows (fst (run_params e options)))"
  using assms by (auto simp add: run_def debug_logging_def split: if_splits)

lemma getReclaimViewAddress_unresolvable:
  assumes "\<not> resolvable (getNetworkConfig e destNetwork)"
  shows "getReclaimViewAddress e assetCategory assetType assetIdOrQuantity pledgeId pledgerCert
           sourceNetwork recipientCert destNetwork pledgeExpiryTimeSecs = ([], Return '''')"
  using assms by (auto simp add: getReclaimViewAddress_def resolvable_def Let_def)

lemma getReclaimViewAddress_resolvable:
  assumes "resolvable (getNetworkConfig e destNetwork)"
  shows "getReclaimViewAddress e assetCategory assetType assetIdOrQuantity pledgeId pledgerCert
           sourceNetwork recipientCert destNetwork pledgeExpiryTimeSecs =
         (if assetCategory = JStr ''bond'' \<or> assetCategory = JStr ''token''
          then ([], Return (address_format
                  (js_to_string (relayEndpoint (getNetworkConfig e destNetwork)))
                  (js_to_string destNetwork)
                  (js_to_string (channelName (getNetworkConfig e destNetwork)))
                  (js_to_string (chaincode (getNetworkConfig e destNetwork)))
                  (if assetCategory = JStr ''bond'' then ''GetAssetClaimStatus''
                   else ''GetTokenAssetClaimStatus'')
                  (claim_status_args pledgeId assetType assetIdOrQuantity recipientCert
                     pledgerCert sourceNetwork pledgeExpiryTimeSecs)))
          else ([ConsoleLog (''Unecognized asset category: '' @ js_to_string assetCategory)],
                Exit 1))"
  using assms
  by (simp add: getReclaimViewAddress_def resolvable_def address_format_def
      claim_status_args_def Let_def)

lemma resolvable_of_address:
  assumes "getReclaimViewAddress e c t q p pc s rc d x = (evs, Return a)" and "a \<noteq> ''''"
  shows "resolvable (getNetworkConfig e d)"
  using assms getReclaimViewAddress_unresolvable [of e d c t q p pc s rc x] by auto

lemma flow_in_run:
  assumes "r \<in> set (flows (fst (run e options)))"
  shows "\<exists>p certificate pledgeAssetDetails a.
      options ''param'' = JStr p
    \<and> wallet_get e (options ''user'') = Some certificate
    \<and> getLocalAssetPledgeDetails e
         \<lparr>pq_sourceNetworkName = options ''source-network'',
          pq_pledgeId = options ''pledge-id'', pq_caller = options ''user'',
          pq_ccType = options ''type''\<rparr> = Inr pledgeAssetDetails
    \<and> getReclaimViewAddress e (options ''type'') (js_index (split_on CHR '':'' p) 0)
         (if options ''type'' = JStr ''token'' then parseInt (js_index (split_on CHR '':'' p) 1)
          else js_index (split_on CHR '':'' p) 1)
         (options ''pledge-id'') (JStr (base64 e certificate)) (options ''source-network'')
         (JStr (getRecipient pledgeAssetDetails))
         (JStr (getRemotenetworkid pledgeAssetDetails))
         (JNum (int (getExpirytimesecs pledgeAssetDetails))) = ([], Return a)
    \<and> a \<noteq> ''''
    \<and> r \<in> set (flows (fst (run_flow e options (options ''type'')
           (getNetworkConfig e (options ''source-network'')) pledgeAssetDetails a)))"
proof -
  from assms have "r \<in> set (flows (fst (run_params e options)))"
    by (rule flows_run)
  then obtain p where p: "options ''param'' = JStr p"
    and n: "r \<in> set (flows (fst (run_network e options (js_index (split_on CHR '':'' p) 0)
             (options ''type'')
             (if options ''type'' = JStr ''token'' then parseInt (js_index (split_on CHR '':'' p) 1)
              else js_index (split_on CHR '':'' p) 1))))"
    using flows_run_params by blast
  from flows_run_network [OF n] obtain certificate pledgeAssetDetails where
    w: "wallet_get e (options ''user'') = Some certificate"
    and q: "getLocalAssetPledgeDetails e
         \<lparr>pq_sourceNetworkName = options ''source-network'',
          pq_pledgeId = options ''pledge-id'', pq_caller = options ''user'',
          pq_ccType = options ''type''\<rparr> = Inr pledgeAssetDetails"
    and f: "r \<in> set (flows (fst (run_pledged e options (js_index (split_on CHR '':'' p) 0)
              (options ''type'')
              (if options ''type'' = JStr ''token'' then parseInt (js_index (split_on CHR '':'' p) 1)
               else js_index (split_on CHR '':'' p) 1)
              (getNetworkConfig e (options ''source-network''))
              (base64 e certificate) pledgeAssetDetails)))"
    by blast
  from flows_run_pledged [OF f] p w q show ?thesis
    by blast
qed

lemma show_int_1700000000: "show_int 1700000000 = ''1700000000''"
  by (simp add: show_int_def show_nat.simps digit_char_def)

lemma example_network2_resolvable: "resolvable (getNetworkConfig example_env (JStr ''network2''))"
  by (simp add: example_env_def example_config_def resolvable_def)

lemma example_network9_unresolvable:
  "\<not> resolvable (getNetworkConfig example_env (JStr ''network9''))"
  by (simp add: example_env_def example_config_def resolvable_def)

text \<open>
  C1 (as amended). When the configuration of the destination network is resolvable, the
  category selects the function name of the address: \<^verbatim>\<open>bond\<close> gives
  \<^verbatim>\<open>GetAssetClaimStatus\<close> and \<^verbatim>\<open>token\<close> gives \<^verbatim>\<open>GetTokenAssetClaimStatus\<close>; for
  every other category the builder prints \<^verbatim>\<open>Unecognized asset category:\<close> and ends the
  process with status 1, so that the command stops there: nothing follows the message,
  and no flow request is sent.
\<close>

theorem category_selects_function:
  assumes "resolvable (getNetworkConfig e destNetwork)"
  shows "(assetCategory = JStr ''bond'' \<longrightarrow>
            getReclaimViewAddress e assetCategory assetType assetIdOrQuantity pledgeId
              pledgerCert sourceNetwork recipientCert destNetwork pledgeExpiryTimeSecs =
            ([], Return (address_format
               (js_to_string (relayEndpoint (getNetworkConfig e destNetwork)))
               (js_to_string destNetwork)
               (js_to_string (channelName (getNetworkConfig e destNetwork)))
               (js_to_string (chaincode (getNetworkConfig e destNetwork)))
               ''GetAssetClaimStatus''
               (claim_status_args pledgeId assetType assetIdOrQuantity recipientCert
                  pledgerCert sourceNetwork pledgeExpiryTimeSecs))))
       \<and> (assetCategory = JStr ''token'' \<longrightarrow>
            getReclaimViewAddress e assetCategory assetType assetIdOrQuantity pledgeId
              pledgerCert sourceNetwork recipientCert destNetwork pledgeExpiryTimeSecs =
            ([], Return (address_format
               (js_to_string (relayEndpoint (getNetworkConfig e destNetwork)))
               (js_to_string destNetwork)
               (js_to_string (channelName (getNetworkConfig e destNetwork)))
               (js_to_string (chaincode (getNetworkConfig e destNetwork)))
               ''GetTokenAssetClaimStatus''
               (claim_status_args pledgeId assetType assetIdOrQuantity recipientCert
                  pledgerCert sourceNetwork pledgeExpiryTimeSecs))))
       \<and> (assetCategory \<noteq> JStr ''bond'' \<and> assetCategory \<noteq> JStr ''token'' \<longrightarrow>
            getReclaimViewAddress e assetCategory assetType assetIdOrQuantity pledgeId
              pledgerCert sourceNetwork recipientCert destNetwork pledgeExpiryTimeSecs =
            ([ConsoleLog (''Unecognized asset category: '' @ js_to_string assetCategory)],
             Exit 1)
          \<and> (destNetwork = JStr (getRemotenetworkid pledgeAssetDetails) \<longrightarrow>
               run_pledged e options assetType assetCategory assetIdOrQuantity netConfig
                 userCert pledgeAssetDetails =
               ([ConsoleLog (''Unecognized asset category: '' @ js_to_string assetCategory)],
                Exit 1)))"
proof (intro conjI impI)
  assume "assetCategory = JStr ''bond''"
  then show "getReclaimViewAddress e assetCategory assetType assetIdOrQuantity pledgeId
              pledgerCert sourceNetwork recipientCert destNetwork pledgeExpiryTimeSecs =
            ([], Return (address_format
               (js_to_string (relayEndpoint (getNetworkConfig e destNetwork)))
               (js_to_string destNetwork)
               (js_to_string (channelName (getNetworkConfig e destNetwork)))
               (js_to_string (chaincode (getNetworkConfig e destNetwork)))
               ''GetAssetClaimStatus''
               (claim_status_args pledgeId assetType assetIdOrQuantity recipientCert
                  pledgerCert sourceNetwork pledgeExpiryTimeSecs)))"
    by (simp add: getReclaimViewAddress_resolvable [OF assms])
next
  assume "assetCategory = JStr ''token''"
  then show "getReclaimViewAddress e assetCategory assetType assetIdOrQuantity pledgeId
              pledgerCert sourceNetwork recipientCert destNetwork pledgeExpiryTimeSecs =
            ([], Return (address_format
               (js_to_string (relayEndpoint (getNetworkConfig e destNetwork)))
               (js_to_string destNetwork)
               (js_to_string (channelName (getNetworkConfig e destNetwork)))
               (js_to_string (chaincode (getNetworkConfig e destNetwork)))
               ''GetTokenAssetClaimStatus''
               (claim_status_args pledgeId assetType assetIdOrQuantity recipientCert
                  pledgerCert sourceNetwork pledgeExpiryTimeSecs)))"
    by (simp add: getReclaimViewAddress_resolvable [OF assms])
next
  assume other: "assetCategory \<noteq> JStr ''bond'' \<and> assetCategory \<noteq> JStr ''token''"
  then show "getReclaimViewAddress e assetCategory assetType assetIdOrQuantity pledgeId
              pledgerCert sourceNetwork recipientCert destNetwork pledgeExpiryTimeSecs =
            ([ConsoleLog (''Unecognized asset category: '' @ js_to_string assetCategory)],
             Exit 1)"
    by (simp add: getReclaimViewAddress_resolvable [OF assms])
next
  assume other: "assetCategory \<noteq> JStr ''bond'' \<and> assetCategory \<noteq> JStr ''token''"
    and dest: "destNetwork = JStr (getRemotenetworkid pledgeAssetDetails)"
  from assms dest
  have "resolvable (getNetworkConfig e (JStr (getRemotenetworkid pledgeAssetDetails)))"
    by simp
  from getReclaimViewAddress_resolvable [OF this] other
  show "run_pledged e options assetType assetCategory assetIdOrQuantity netConfig
          userCert pledgeAssetDetails =
        ([ConsoleLog (''Unecognized asset category: '' @ js_to_string assetCategory)], Exit 1)"
    by (simp add: run_pledged_def)
qed

theorem category_selects_function_witness:
  "resolvable (getNetworkConfig example_env (JStr ''network2''))
   \<and> getReclaimViewAddress example_env (JStr ''token'') (JStr ''token1'') (JNum 50) (JStr ''p1'')
       (JStr ''YWxpY2U='') (JStr ''network1'') (JStr ''Ym9i'') (JStr ''network2'')
       (JNum 1700000000) =
     ([], Return (address_format ''localhost:9083'' ''network2'' ''mychannel''
        ''simpleassettransfer'' ''GetTokenAssetClaimStatus''
        [''p1'', ''token1'', ''50'', ''Ym9i'', ''YWxpY2U='', ''network1'', ''1700000000'']))
   \<and> getReclaimViewAddress example_env (JStr ''bond'') (JStr ''bond01'') (JStr ''a03'') (JStr ''p1'')
       (JStr ''YWxpY2U='') (JStr ''network1'') (JStr ''Ym9i'') (JStr ''network2'')
       (JNum 1700000000) =
     ([], Return (address_format ''localhost:9083'' ''network2'' ''mychannel''
        ''simpleassettransfer'' ''GetAssetClaimStatus''
        [''p1'', ''bond01'', ''a03'', ''Ym9i'', ''YWxpY2U='', ''network1'', ''1700000000'']))
   \<and> getReclaimViewAddress example_env (JStr ''gold'') (JStr ''bond01'') (JStr ''a03'') (JStr ''p1'')
       (JStr ''YWxpY2U='') (JStr ''network1'') (JStr ''Ym9i'') (JStr ''network2'')
       (JNum 1700000000) =
     ([ConsoleLog ''Unecognized asset category: gold''], Exit 1)
   \<and> run_pledged example_env reclaim_gold (JStr ''bond01'') (JStr ''gold'') (JStr ''a03'')
       (getNetworkConfig example_env (JStr ''network1'')) ''YWxpY2U=''
       \<lparr>getRecipient = ''Ym9i'', getRemotenetworkid = ''network2'',
        getExpirytimesecs = 1700000000\<rparr> =
     ([ConsoleLog ''Unecognized asset category: gold''], Exit 1)"
proof -
  have r: "resolvable (getNetworkConfig example_env (JStr ''network2''))"
    by (rule example_network2_resolvable)
  have c: "getNetworkConfig example_env (JStr ''network2'') =
      \<lparr>relayEndpoint = JStr ''localhost:9083'', connProfilePath = JStr ''ccp2.json'',
       channelName = JStr ''mychannel'', chaincode = JStr ''simpleassettransfer'',
       mspId = JStr ''Org1MSP''\<rparr>"
    by (simp add: example_env_def example_config_def)
  have s: "show_int 50 = ''50''"
    by (simp add: show_int_def show_nat.simps digit_char_def)
  from category_selects_function [OF r, of "JStr ''token''" "JStr ''token1''" "JNum 50"
      "JStr ''p1''" "JStr ''YWxpY2U=''" "JStr ''network1''" "JStr ''Ym9i''" "JNum 1700000000"]
    category_selects_function [OF r, of "JStr ''bond''" "JStr ''bond01''" "JStr ''a03''"
      "JStr ''p1''" "JStr ''YWxpY2U=''" "JStr ''network1''" "JStr ''Ym9i''" "JNum 1700000000"]
    category_selects_function [where e = example_env and destNetwork = "JStr ''network2''"
      and assetCategory = "JStr ''gold''" and assetType = "JStr ''bond01''"
      and assetIdOrQuantity = "JStr ''a03''" and pledgeId = "JStr ''p1''"
      and pledgerCert = "JStr ''YWxpY2U=''" and sourceNetwork = "JStr ''network1''"
      and recipientCert = "JStr ''Ym9i''" and pledgeExpiryTimeSecs = "JNum 1700000000"
      and pledgeAssetDetails = "\<lparr>getRecipient = ''Ym9i'', getRemotenetworkid = ''network2'',
        getExpirytimesecs = 1700000000\<rparr>"
      and options = reclaim_gold
      and netConfig = "getNetworkConfig example_env (JStr ''network1'')"
      and userCert = "''YWxpY2U=''", OF r]
  show ?thesis
    using r by (simp add: c s claim_status_args_def show_int_1700000000)
qed

theorem unrecognized_category_unresolvable_destination:
  "getReclaimViewAddress example_env (JStr ''gold'') (JStr ''bond01'') (JStr ''a03'')
     (JStr ''p9'') (JStr ''YWxpY2U='') (JStr ''network1'') (JStr ''Ym9i'') (JStr ''network9'')
     (JNum 1700000000) = ([], Return '''')"
  by (simp add: getReclaimViewAddress_def example_env_def example_config_def)

text \<open>
  C4. For a resolvable destination network, an address returned by the builder is the
  relay endpoint, the network and the channel separated by slashes, then the chaincode
  name, the function name and the seven arguments, each preceded by a colon, in the
  order pledge id, asset type, asset id or quantity, recipient certificate, pledger
  certificate, source network, expiry time. Every part is written as it is: a colon
  inside an argument stays a colon.
\<close>

theorem address_has_format:
  assumes "resolvable (getNetworkConfig e destNetwork)"
    and "getReclaimViewAddress e assetCategory assetType assetIdOrQuantity pledgeId pledgerCert
           sourceNetwork recipientCert destNetwork pledgeExpiryTimeSecs = (evs, Return address)"
  shows "address =
           address_format (js_to_string (relayEndpoint (getNetworkConfig e destNetwork)))
             (js_to_string destNetwork)
             (js_to_string (channelName (getNetworkConfig e destNetwork)))
             (js_to_string (chaincode (getNetworkConfig e destNetwork)))
             (if assetCategory = JStr ''bond'' then ''GetAssetClaimStatus''
              else ''GetTokenAssetClaimStatus'')
             [js_to_string pledgeId, js_to_string assetType, js_to_string assetIdOrQuantity,
              js_to_string recipientCert, js_to_string pledgerCert,
              js_to_string sourceNetwork, js_to_string pledgeExpiryTimeSecs]
         \<and> address =
           js_to_string (relayEndpoint (getNetworkConfig e destNetwork)) @ ''/''
             @ js_to_string destNetwork @ ''/''
             @ js_to_string (channelName (getNetworkConfig e destNetwork)) @ '':''
             @ js_to_string (chaincode (getNetworkConfig e destNetwork)) @ '':''
             @ (if assetCategory = JStr ''bond'' then ''GetAssetClaimStatus''
                else ''GetTokenAssetClaimStatus'') @ '':''
             @ js_to_string pledgeId @ '':'' @ js_to_string assetType @ '':''
             @ js_to_string assetIdOrQuantity @ '':'' @ js_to_string recipientCert @ '':''
             @ js_to_string pledgerCert @ '':'' @ js_to_string sourceNetwork @ '':''
             @ js_to_string pledgeExpiryTimeSecs
         \<and> (assetCategory = JStr ''bond'' \<or> assetCategory = JStr ''token'')
         \<and> evs = []"
proof -
  from assms(2) getReclaimViewAddress_resolvable [OF assms(1), of assetCategory assetType
      assetIdOrQuantity pledgeId pledgerCert sourceNetwork recipientCert pledgeExpiryTimeSecs]
  have c: "assetCategory = JStr ''bond'' \<or> assetCategory = JStr ''token''"
    and a: "address = address_format
              (js_to_string (relayEndpoint (getNetworkConfig e destNetwork)))
              (js_to_string destNetwork)
              (js_to_string (channelName (getNetworkConfig e destNetwork)))
              (js_to_string (chaincode (getNetworkConfig e destNetwork)))
              (if assetCategory = JStr ''bond'' then ''GetAssetClaimStatus''
               else ''GetTokenAssetClaimStatus'')
              (claim_status_args pledgeId assetType assetIdOrQuantity recipientCert
                 pledgerCert sourceNetwork pledgeExpiryTimeSecs)"
    and e: "evs = []"
    by (auto split: if_splits)
  from a c e show ?thesis
    by (simp add: claim_status_args_def address_format_def)
qed

theorem address_has_format_witness:
  "resolvable (getNetworkConfig example_env (JStr ''network2''))
   \<and> getReclaimViewAddress example_env (JStr ''bond'') (JStr ''bond01'') (JStr ''a:03'')
       (JStr ''p1'') (JStr ''YWxpY2U='') (JStr ''network1'') (JStr ''Ym9i'') (JStr ''network2'')
       (JNum 1700000000) =
     ([], Return ''localhost:9083/network2/mychannel:simpleassettransfer:GetAssetClaimStatus:p1:bond01:a:03:Ym9i:YWxpY2U=:network1:1700000000'')
   \<and> ''localhost:9083/network2/mychannel:simpleassettransfer:GetAssetClaimStatus:p1:bond01:a:03:Ym9i:YWxpY2U=:network1:1700000000'' =
     address_format ''localhost:9083'' ''network2'' ''mychannel'' ''simpleassettransfer''
       ''GetAssetClaimStatus''
       [''p1'', ''bond01'', ''a:03'', ''Ym9i'', ''YWxpY2U='', ''network1'', ''1700000000'']"
proof -
  have r: "resolvable (getNetworkConfig example_env (JStr ''network2''))"
    by (rule example_network2_resolvable)
  have b: "getReclaimViewAddress example_env (JStr ''bond'') (JStr ''bond01'') (JStr ''a:03'')
       (JStr ''p1'') (JStr ''YWxpY2U='') (JStr ''network1'') (JStr ''Ym9i'') (JStr ''network2'')
       (JNum 1700000000) =
     ([], Return ''localhost:9083/network2/mychannel:simpleassettransfer:GetAssetClaimStatus:p1:bond01:a:03:Ym9i:YWxpY2U=:network1:1700000000'')"
    by (simp add: getReclaimViewAddress_def example_env_def example_config_def
        show_int_1700000000)
  have c: "getNetworkConfig example_env (JStr ''network2'') =
      \<lparr>relayEndpoint = JStr ''localhost:9083'', connProfilePath = JStr ''ccp2.json'',
       channelName = JStr ''mychannel'', chaincode = JStr ''simpleassettransfer'',
       mspId = JStr ''Org1MSP''\<rparr>"
    by (simp add: example_env_def example_config_def)
  from address_has_format [OF r b] r b show ?thesis
    by (simp add: c show_int_1700000000)
qed

text \<open>
  C7 (as amended). The builder reads the configuration of the destination network and
  nothing else of its environment: under equal configurations, equal arguments give equal
  results. It returns an address without any output exactly when the destination is
  not resolvable or the category is \<^verbatim>\<open>bond\<close> or \<^verbatim>\<open>token\<close>; for every other category
  with a resolvable destination it writes to the console and ends the process with
  status 1.
\<close>

theorem builder_effects:
  "(getNetworkConfig e1 destNetwork = getNetworkConfig e2 destNetwork \<longrightarrow>
      getReclaimViewAddress e1 assetCategory assetType assetIdOrQuantity pledgeId pledgerCert
        sourceNetwork recipientCert destNetwork pledgeExpiryTimeSecs =
      getReclaimViewAddress e2 assetCategory assetType assetIdOrQuantity pledgeId pledgerCert
        sourceNetwork recipientCert destNetwork pledgeExpiryTimeSecs)
   \<and> ((\<exists>address. getReclaimViewAddress e1 assetCategory assetType assetIdOrQuantity pledgeId
          pledgerCert sourceNetwork recipientCert destNetwork pledgeExpiryTimeSecs =
          ([], Return address))
        = (\<not> resolvable (getNetworkConfig e1 destNetwork) \<or> assetCategory = JStr ''bond''
           \<or> assetCategory = JStr ''token''))
   \<and> (resolvable (getNetworkConfig e1 destNetwork) \<and> assetCategory \<noteq> JStr ''bond''
        \<and> assetCategory \<noteq> JStr ''token'' \<longrightarrow>
        getReclaimViewAddress e1 assetCategory assetType assetIdOrQuantity pledgeId
          pledgerCert sourceNetwork recipientCert destNetwork pledgeExpiryTimeSecs =
        ([ConsoleLog (''Unecognized asset category: '' @ js_to_string assetCategory)], Exit 1))"
proof (intro conjI impI)
  assume "getNetworkConfig e1 destNetwork = getNetworkConfig e2 destNetwork"
  then show "getReclaimViewAddress e1 assetCategory assetType assetIdOrQuantity pledgeId
        pledgerCert sourceNetwork recipientCert destNetwork pledgeExpiryTimeSecs =
      getReclaimViewAddress e2 assetCategory assetType assetIdOrQuantity pledgeId pledgerCert
        sourceNetwork recipientCert destNetwork pledgeExpiryTimeSecs"
    by (simp add: getReclaimViewAddress_def)
next
  show "(\<exists>address. getReclaimViewAddress e1 assetCategory assetType assetIdOrQuantity pledgeId
          pledgerCert sourceNetwork recipientCert destNetwork pledgeExpiryTimeSecs =
          ([], Return address))
        = (\<not> resolvable (getNetworkConfig e1 destNetwork) \<or> assetCategory = JStr ''bond''
           \<or> assetCategory = JStr ''token'')"
  proof (cases "resolvable (getNetworkConfig e1 destNetwork)")
    case True
    then show ?thesis
      by (simp add: getReclaimViewAddress_resolvable)
  next
    case False
    then show ?thesis
      by (simp add: getReclaimViewAddress_unresolvable)
  qed
next
  assume "resolvable (getNetworkConfig e1 destNetwork) \<and> assetCategory \<noteq> JStr ''bond''
        \<and> assetCategory \<noteq> JStr ''token''"
  then show "getReclaimViewAddress e1 assetCategory assetType assetIdOrQuantity pledgeId
          pledgerCert sourceNetwork recipientCert destNetwork pledgeExpiryTimeSecs =
        ([ConsoleLog (''Unecognized asset category: '' @ js_to_string assetCategory)], Exit 1)"
    by (simp add: getReclaimViewAddress_resolvable)
qed

theorem builder_effects_witness:
  "getNetworkConfig example_env (JStr ''network2'')
     = getNetworkConfig (example_env\<lparr>DEFAULT_CHAINCODE := Some ''interop2''\<rparr>) (JStr ''network2'')
   \<and> getReclaimViewAddress example_env (JStr ''silver'') (JStr ''bond01'') (JStr ''a03'')
       (JStr ''p1'') (JStr ''YWxpY2U='') (JStr ''network1'') (JStr ''Ym9i'') (JStr ''network2'')
       (JNum 1700000000)
     = getReclaimViewAddress (example_env\<lparr>DEFAULT_CHAINCODE := Some ''interop2''\<rparr>)
       (JStr ''silver'') (JStr ''bond01'') (JStr ''a03'')
       (JStr ''p1'') (JStr ''YWxpY2U='') (JStr ''network1'') (JStr ''Ym9i'') (JStr ''network2'')
       (JNum 1700000000)
   \<and> resolvable (getNetworkConfig example_env (JStr ''network2''))
   \<and> JStr ''silver'' \<noteq> JStr ''bond'' \<and> JStr ''silver'' \<noteq> JStr ''token''
   \<and> getReclaimViewAddress example_env (JStr ''silver'') (JStr ''bond01'') (JStr ''a03'')
       (JStr ''p1'') (JStr ''YWxpY2U='') (JStr ''network1'') (JStr ''Ym9i'') (JStr ''network2'')
       (JNum 1700000000)
     = ([ConsoleLog (''Unecognized asset category: '' @ js_to_string (JStr ''silver''))], Exit 1)
   \<and> \<not> (\<exists>address. getReclaimViewAddress example_env (JStr ''silver'') (JStr ''bond01'')
       (JStr ''a03'') (JStr ''p1'') (JStr ''YWxpY2U='') (JStr ''network1'') (JStr ''Ym9i'')
       (JStr ''network2'') (JNum 1700000000) = ([], Return address))"
proof -
  have r: "resolvable (getNetworkConfig example_env (JStr ''network2''))"
    by (rule example_network2_resolvable)
  have c: "getNetworkConfig example_env (JStr ''network2'')
     = getNetworkConfig (example_env\<lparr>DEFAULT_CHAINCODE := Some ''interop2''\<rparr>) (JStr ''network2'')"
    by simp
  have n: "JStr ''silver'' \<noteq> JStr ''bond'' \<and> JStr ''silver'' \<noteq> JStr ''token''"
    by simp
  from builder_effects [of example_env "JStr ''network2''"
      "example_env\<lparr>DEFAULT_CHAINCODE := Some ''interop2''\<rparr>" "JStr ''silver''" "JStr ''bond01''"
      "JStr ''a03''" "JStr ''p1''" "JStr ''YWxpY2U=''" "JStr ''network1''" "JStr ''Ym9i''"
      "JNum 1700000000"] r c n
  show ?thesis by blast
qed

theorem builder_prints_and_exits:
  "getReclaimViewAddress example_env (JStr ''gold'') (JStr ''bond01'') (JStr ''a03'')
     (JStr ''p1'') (JStr ''YWxpY2U='') (JStr ''network1'') (JStr ''Ym9i'') (JStr ''network2'')
     (JNum 1700000000) = ([ConsoleLog ''Unecognized asset category: gold''], Exit 1)"
  by (simp add: getReclaimViewAddress_def example_env_def example_config_def)

lemma relayTlsCAFiles_dest_network:
  "relayTlsCAFiles (options(''dest-network'' := v)) = relayTlsCAFiles options"
  by (simp add: relayTlsCAFiles_def)

lemma run_flow_dest_network:
  "run_flow e (options(''dest-network'' := v)) assetCategory netConfig pledgeAssetDetails a =
   run_flow e options assetCategory netConfig pledgeAssetDetails a"
  by (simp add: run_flow_def relayTlsCAFiles_dest_network Let_def split: sum.splits)

lemma flows_run_pledged_dest_network:
  "flows (fst (run_pledged e (options(''dest-network'' := v)) assetType assetCategory
      assetIdOrQuantity netConfig userCert pledgeAssetDetails)) =
   flows (fst (run_pledged e options assetType assetCategory assetIdOrQuantity netConfig
      userCert pledgeAssetDetails))"
  by (simp add: run_pledged_def run_flow_dest_network split: prod.splits completion.splits)

lemma flows_run_network_dest_network:
  "flows (fst (run_network e (options(''dest-network'' := v)) assetType assetCategory
      assetIdOrQuantity)) =
   flows (fst (run_network e options assetType assetCategory assetIdOrQuantity))"
  by (simp add: run_network_def Let_def flows_run_pledged_dest_network
      split: sum.splits option.splits)

lemma flows_run_params_dest_network:
  "flows (fst (run_params e (options(''dest-network'' := v)))) =
   flows (fst (run_params e options))"
  by (simp add: run_params_def Let_def flows_run_network_dest_network split: jsval.splits)

lemma flows_run_dest_network:
  "flows (fst (run e (options(''dest-network'' := v)))) = flows (fst (run e options))"
  by (simp add: run_def debug_logging_def flows_run_params_dest_network)

lemma parseInt_50: "parseInt (JStr ''50'') = JNum 50"
  by (simp add: parseInt_def is_js_space_def is_digit_in_def digit_val_def digits_value_def)



lemma show_int_50: "show_int 50 = ''50''"
  by (simp add: show_int_def show_nat.simps digit_char_def)


lemmas example_defs = example_env_def example_config_def example_pledges_def options_of_def

lemmas run_defs = run_def debug_logging_def run_params_def run_network_def run_pledged_def run_flow_def
  getReclaimViewAddress_def flow_report_def relayTlsCAFiles_def after_def js_index_def
  isNaN_def Let_def









text \<open>
  C8 (as amended). When no help is asked for and one of \<^verbatim>\<open>--source-network\<close>,
  \<^verbatim>\<open>--user\<close>, \<^verbatim>\<open>--type\<close>, \<^verbatim>\<open>--param\<close> is missing, the command prints the message of the
  first missing one and returns. Apart from the debug logging of \<^verbatim>\<open>--debug=true\<close>
  nothing else happens: no connection, no wallet access, no ledger query, no flow.
\<close>

theorem missing_required_option_rejected:
  assumes "\<not> truthy (options ''help'')" and "\<not> truthy (options ''h'')"
    and "options ''source-network'' = JUndefined \<or> options ''user'' = JUndefined
         \<or> options ''type'' = JUndefined \<or> options ''param'' = JUndefined"
  shows "run e options =
           (debug_logging options
              @ [PrintError
                  (if \<not> truthy (options ''source-network'')
                   then ''--source-network needs to be specified''
                   else if \<not> truthy (options ''user'') then ''--user needs to be specified''
                   else if \<not> truthy (options ''type'')
                   then ''--type of network needs to be specified''
                   else ''--param needs to be specified'')],
            Return ())"
  using assms by (auto simp add: run_def after_def)

theorem missing_required_option_rejected_witness:
  "\<not> truthy (reclaim_no_user ''help'') \<and> \<not> truthy (reclaim_no_user ''h'')
   \<and> reclaim_no_user ''user'' = JUndefined
   \<and> run example_env reclaim_no_user = ([PrintError ''--user needs to be specified''], Return ())"
proof -
  have o: "reclaim_no_user ''help'' = JUndefined" "reclaim_no_user ''h'' = JUndefined"
    "reclaim_no_user ''user'' = JUndefined"
    "reclaim_no_user ''source-network'' = JStr ''network1''"
    "reclaim_no_user ''debug'' = JUndefined"
    by (simp_all add: reclaim_no_user_def options_of_def)
  from missing_required_option_rejected [where e = example_env and options = reclaim_no_user] o
  show ?thesis
    by (simp add: debug_logging_def)
qed

theorem help_precedes_argument_checks:
  "run example_env reclaim_help_no_user = ([CommandHelp], Return ())"
  by (simp add: run_def reclaim_help_no_user_def options_of_def)




lemma split_on_no_separator: "c \<notin> set s \<Longrightarrow> split_on c s = [s]"
  by (induction s) auto

lemma split_on_first: "c \<notin> set a \<Longrightarrow> split_on c (a @ c # b) = a # split_on c b"
  by (induction a) auto

lemma split_on_joined:
  "\<forall>x \<in> set (a # xs). c \<notin> set x \<Longrightarrow>
   split_on c (a @ concat (map (\<lambda>x. c # x) xs)) = a # xs"
proof (induction xs arbitrary: a)
  case Nil
  then show ?case by (simp add: split_on_no_separator)
next
  case (Cons x xs)
  from Cons.prems have "c \<notin> set a" and "\<forall>y \<in> set (x # xs). c \<notin> set y"
    by simp_all
  with Cons.IH [of x] show ?case
    by (simp add: split_on_first)
qed

lemma cut_at_first:
  assumes "c \<notin> set a"
  shows "cut_at c (a @ c # b) = Some (a, b)"
proof -
  from assms have "takeWhile (\<lambda>x. x \<noteq> c) (a @ c # b) = a"
    and "dropWhile (\<lambda>x. x \<noteq> c) (a @ c # b) = c # b"
    by (induction a) auto
  then show ?thesis
    by (simp add: cut_at_def)
qed

lemma parse_address_format:
  assumes "CHR ''/'' \<notin> set relay" and "CHR ''/'' \<notin> set network"
    and "\<forall>x \<in> set (channel # contract # func # args). CHR '':'' \<notin> set x"
  shows "parse_address (address_format relay network channel contract func args) =
         Some \<lparr>rva_relayEndpoint = relay, rva_network = network, rva_channel = channel,
               rva_contract = contract, rva_function = func, rva_args = args\<rparr>"
proof -
  have v: "split_on CHR '':'' (channel @ concat (map (\<lambda>x. CHR '':'' # x) (contract # func # args)))
           = channel # contract # func # args"
    by (rule split_on_joined) (use assms(3) in simp)
  have "address_format relay network channel contract func args =
        relay @ CHR ''/'' # (network @ CHR ''/''
          # (channel @ concat (map (\<lambda>x. CHR '':'' # x) (contract # func # args))))"
    by (simp add: address_format_def)
  with assms(1,2) v show ?thesis
    by (simp add: parse_address_def cut_at_first)
qed

text \<open>
  C6. Parsing the address that the builder returns gives back the parts it was built
  from: the relay endpoint, the destination network, the channel, the chaincode name, the
  function name and the seven arguments, each as the text that the builder wrote. This
  holds when the relay endpoint and the network name contain no slash and the channel,
  the chaincode name and the arguments contain no colon.
\<close>

theorem parse_after_build:
  assumes "resolvable (getNetworkConfig e destNetwork)"
    and "getReclaimViewAddress e assetCategory assetType assetIdOrQuantity pledgeId pledgerCert
           sourceNetwork recipientCert destNetwork pledgeExpiryTimeSecs = (evs, Return address)"
    and "CHR ''/'' \<notin> set (js_to_string (relayEndpoint (getNetworkConfig e destNetwork)))"
    and "CHR ''/'' \<notin> set (js_to_string destNetwork)"
    and "CHR '':'' \<notin> set (js_to_string (channelName (getNetworkConfig e destNetwork)))"
    and "CHR '':'' \<notin> set (js_to_string (chaincode (getNetworkConfig e destNetwork)))"
    and "\<forall>x \<in> set (claim_status_args pledgeId assetType assetIdOrQuantity recipientCert
            pledgerCert sourceNetwork pledgeExpiryTimeSecs). CHR '':'' \<notin> set x"
  shows "parse_address address =
         Some \<lparr>rva_relayEndpoint = js_to_string (relayEndpoint (getNetworkConfig e destNetwork)),
               rva_network = js_to_string destNetwork,
               rva_channel = js_to_string (channelName (getNetworkConfig e destNetwork)),
               rva_contract = js_to_string (chaincode (getNetworkConfig e destNetwork)),
               rva_function = (if assetCategory = JStr ''bond'' then ''GetAssetClaimStatus''
                               else ''GetTokenAssetClaimStatus''),
               rva_args = claim_status_args pledgeId assetType assetIdOrQuantity recipientCert
                 pledgerCert sourceNetwork pledgeExpiryTimeSecs\<rparr>"
proof -
  from assms(2) getReclaimViewAddress_resolvable [OF assms(1), of assetCategory assetType
      assetIdOrQuantity pledgeId pledgerCert sourceNetwork recipientCert pledgeExpiryTimeSecs]
  have a: "address = address_format
              (js_to_string (relayEndpoint (getNetworkConfig e destNetwork)))
              (js_to_string destNetwork)
              (js_to_string (channelName (getNetworkConfig e destNetwork)))
              (js_to_string (chaincode (getNetworkConfig e destNetwork)))
              (if assetCategory = JStr ''bond'' then ''GetAssetClaimStatus''
               else ''GetTokenAssetClaimStatus'')
              (claim_status_args pledgeId assetType assetIdOrQuantity recipientCert
                 pledgerCert sourceNetwork pledgeExpiryTimeSecs)"
    by (auto split: if_splits)
  have f: "CHR '':'' \<notin> set (if assetCategory = JStr ''bond'' then ''GetAssetClaimStatus''
               else ''GetTokenAssetClaimStatus'')"
    by simp
  show ?thesis
    unfolding a
    by (rule parse_address_format) (use assms(3-7) f in simp_all)
qed

theorem parse_after_build_witness:
  "resolvable (getNetworkConfig example_env (JStr ''network2''))
   \<and> getReclaimViewAddress example_env (JStr ''token'') (JStr ''token1'') (JNum 50) (JStr ''p1'')
       (JStr ''YWxpY2U='') (JStr ''network1'') (JStr ''Ym9i'') (JStr ''network2'')
       (JNum 1700000000) =
     ([], Return ''localhost:9083/network2/mychannel:simpleassettransfer:GetTokenAssetClaimStatus:p1:token1:50:Ym9i:YWxpY2U=:network1:1700000000'')
   \<and> parse_address ''localhost:9083/network2/mychannel:simpleassettransfer:GetTokenAssetClaimStatus:p1:token1:50:Ym9i:YWxpY2U=:network1:1700000000'' =
     Some \<lparr>rva_relayEndpoint = ''localhost:9083'', rva_network = ''network2'',
           rva_channel = ''mychannel'', rva_contract = ''simpleassettransfer'',
           rva_function = ''GetTokenAssetClaimStatus'',
           rva_args = [''p1'', ''token1'', ''50'', ''Ym9i'', ''YWxpY2U='', ''network1'',
             ''1700000000'']\<rparr>"
proof -
  have r: "resolvable (getNetworkConfig example_env (JStr ''network2''))"
    by (rule example_network2_resolvable)
  have b: "getReclaimViewAddress example_env (JStr ''token'') (JStr ''token1'') (JNum 50)
       (JStr ''p1'') (JStr ''YWxpY2U='') (JStr ''network1'') (JStr ''Ym9i'') (JStr ''network2'')
       (JNum 1700000000) =
     ([], Return ''localhost:9083/network2/mychannel:simpleassettransfer:GetTokenAssetClaimStatus:p1:token1:50:Ym9i:YWxpY2U=:network1:1700000000'')"
    by (simp add: getReclaimViewAddress_def example_env_def example_config_def
        show_int_50 show_int_1700000000)
  have c: "getNetworkConfig example_env (JStr ''network2'') =
      \<lparr>relayEndpoint = JStr ''localhost:9083'', connProfilePath = JStr ''ccp2.json'',
       channelName = JStr ''mychannel'', chaincode = JStr ''simpleassettransfer'',
       mspId = JStr ''Org1MSP''\<rparr>"
    by (simp add: example_env_def example_config_def)
  have g: "claim_status_args (JStr ''p1'') (JStr ''token1'') (JNum 50) (JStr ''Ym9i'')
       (JStr ''YWxpY2U='') (JStr ''network1'') (JNum 1700000000) =
     [''p1'', ''token1'', ''50'', ''Ym9i'', ''YWxpY2U='', ''network1'', ''1700000000'']"
    by (simp add: claim_status_args_def show_int_50 show_int_1700000000)
  from parse_after_build [OF r b] r b show ?thesis
    by (simp add: c g)
qed

lemma run_to_pledged:
  assumes "\<not> truthy (options ''help'')" and "\<not> truthy (options ''h'')"
    and "truthy (options ''source-network'')" and "truthy (options ''user'')"
    and "truthy (options ''type'')" and "options ''param'' = JStr p"
    and "truthy (js_index (split_on CHR '':'' p) 1)"
    and "options ''type'' = JStr ''token'' \<longrightarrow> parseInt (js_index (split_on CHR '':'' p) 1) \<noteq> JNaN"
    and "resolvable (getNetworkConfig e (options ''source-network''))"
    and "fabricHelper e
           \<lparr>fh_channel = channelName (getNetworkConfig e (options ''source-network'')),
            fh_contractName = (case DEFAULT_CHAINCODE e of None \<Rightarrow> ''interop''
                               | Some c \<Rightarrow> if c \<noteq> [] then c else ''interop''),
            fh_connProfilePath = connProfilePath (getNetworkConfig e (options ''source-network'')),
            fh_networkName = options ''source-network'',
            fh_mspId = mspId (getNetworkConfig e (options ''source-network'')),
            fh_discoveryEnabled = True, fh_userString = options ''user''\<rparr> = Inr u"
    and "wallet_get e (options ''user'') = Some certificate"
    and "getLocalAssetPledgeDetails e
           \<lparr>pq_sourceNetworkName = options ''source-network'',
            pq_pledgeId = options ''pledge-id'', pq_caller = options ''user'',
            pq_ccType = options ''type''\<rparr> = Inr pledgeAssetDetails"
  shows "run e options =
         after (debug_logging options
                 @ [FabricHelper
                      \<lparr>fh_channel = channelName (getNetworkConfig e (options ''source-network'')),
                       fh_contractName = (case DEFAULT_CHAINCODE e of None \<Rightarrow> ''interop''
                                          | Some c \<Rightarrow> if c \<noteq> [] then c else ''interop''),
                       fh_connProfilePath =
                         connProfilePath (getNetworkConfig e (options ''source-network'')),
                       fh_networkName = options ''source-network'',
                       fh_mspId = mspId (getNetworkConfig e (options ''source-network'')),
                       fh_discoveryEnabled = True, fh_userString = options ''user''\<rparr>,
                    WalletGet (options ''user''),
                    GetLocalAssetPledgeDetails
                      \<lparr>pq_sourceNetworkName = options ''source-network'',
                       pq_pledgeId = options ''pledge-id'', pq_caller = options ''user'',
                       pq_ccType = options ''type''\<rparr>])
           (run_pledged e options (js_index (split_on CHR '':'' p) 0) (options ''type'')
              (if options ''type'' = JStr ''token''
               then parseInt (js_index (split_on CHR '':'' p) 1)
               else js_index (split_on CHR '':'' p) 1)
              (getNetworkConfig e (options ''source-network'')) (base64 e certificate)
              pledgeAssetDetails)"
proof -
  from assms(6,7) have q: "truthy (options ''param'')"
    by (cases p) (simp_all add: js_index_def)
  from assms(1-5) q have 1: "run e options = after (debug_logging options) (run_params e options)"
    by (simp add: run_def)
  from assms(5-8) have 2: "run_params e options =
      run_network e options (js_index (split_on CHR '':'' p) 0) (options ''type'')
        (if options ''type'' = JStr ''token''
         then parseInt (js_index (split_on CHR '':'' p) 1)
         else js_index (split_on CHR '':'' p) 1)"
    by (auto simp add: run_params_def isNaN_def Let_def)
  from assms(9-12) have 3: "run_network e options (js_index (split_on CHR '':'' p) 0)
        (options ''type'')
        (if options ''type'' = JStr ''token''
         then parseInt (js_index (split_on CHR '':'' p) 1)
         else js_index (split_on CHR '':'' p) 1) =
      after [FabricHelper
               \<lparr>fh_channel = channelName (getNetworkConfig e (options ''source-network'')),
                fh_contractName = (case DEFAULT_CHAINCODE e of None \<Rightarrow> ''interop''
                                   | Some c \<Rightarrow> if c \<noteq> [] then c else ''interop''),
                fh_connProfilePath =
                  connProfilePath (getNetworkConfig e (options ''source-network'')),
                fh_networkName = options ''source-network'',
                fh_mspId = mspId (getNetworkConfig e (options ''source-network'')),
                fh_discoveryEnabled = True, fh_userString = options ''user''\<rparr>,
             WalletGet (options ''user''),
             GetLocalAssetPledgeDetails
               \<lparr>pq_sourceNetworkName = options ''source-network'',
                pq_pledgeId = options ''pledge-id'', pq_caller = options ''user'',
                pq_ccType = options ''type''\<rparr>]
        (run_pledged e options (js_index (split_on CHR '':'' p) 0) (options ''type'')
           (if options ''type'' = JStr ''token''
            then parseInt (js_index (split_on CHR '':'' p) 1)
            else js_index (split_on CHR '':'' p) 1)
           (getNetworkConfig e (options ''source-network'')) (base64 e certificate)
           pledgeAssetDetails)"
    by (simp add: run_network_def resolvable_def Let_def after_def)
  show ?thesis
    unfolding 1 2 3 by (simp add: after_def)
qed

lemma flows_run_flow_sent:
  assumes "getKeyAndCertForRemoteRequestbyUserName e (options ''user'') = Inr keyCert"
    and "relayTlsCAFiles options = Inr caFiles"
  shows "flows (fst (run_flow e options assetCategory netConfig pledgeAssetDetails viewAddress)) =
         [\<lparr>fr_networkName = options ''source-network'',
           fr_invokeObject =
             \<lparr>io_channel = channelName netConfig,
              io_ccFunc = (if assetCategory = JStr ''token'' then ''ReclaimTokenAsset''
                           else ''ReclaimAsset''),
              io_ccArgs = [options ''pledge-id'', JStr (getRecipient pledgeAssetDetails),
                JStr (getRemotenetworkid pledgeAssetDetails), JStr ''''],
              io_contractName = chaincode netConfig\<rparr>,
           fr_mspId = mspId netConfig,
           fr_relayEndpoint = relayEndpoint netConfig,
           fr_replaceIndices = getChaincodeConfig e (chaincode netConfig)
             (if assetCategory = JStr ''token'' then ''ReclaimTokenAsset'' else ''ReclaimAsset''),
           fr_views = [\<lparr>vr_address = viewAddress, vr_Sign = True\<rparr>],
           fr_keyCert = keyCert, fr_flag = False,
           fr_relayTls = (options ''relay-tls'' = JStr ''true''),
           fr_relayTlsCAFiles = caFiles\<rparr>]"
  using assms by (simp add: run_flow_def Let_def)

lemma run_unresolvable_destination:
  assumes "\<not> truthy (options ''help'')" and "\<not> truthy (options ''h'')"
    and "truthy (options ''source-network'')" and "truthy (options ''user'')"
    and "truthy (options ''type'')" and "options ''param'' = JStr p"
    and "truthy (js_index (split_on CHR '':'' p) 1)"
    and "options ''type'' = JStr ''token'' \<longrightarrow> parseInt (js_index (split_on CHR '':'' p) 1) \<noteq> JNaN"
    and "resolvable (getNetworkConfig e (options ''source-network''))"
    and "fabricHelper e
           \<lparr>fh_channel = channelName (getNetworkConfig e (options ''source-network'')),
            fh_contractName = (case DEFAULT_CHAINCODE e of None \<Rightarrow> ''interop''
                               | Some c \<Rightarrow> if c \<noteq> [] then c else ''interop''),
            fh_connProfilePath = connProfilePath (getNetworkConfig e (options ''source-network'')),
            fh_networkName = options ''source-network'',
            fh_mspId = mspId (getNetworkConfig e (options ''source-network'')),
            fh_discoveryEnabled = True, fh_userString = options ''user''\<rparr> = Inr u"
    and "wallet_get e (options ''user'') = Some certificate"
    and "getLocalAssetPledgeDetails e
           \<lparr>pq_sourceNetworkName = options ''source-network'',
            pq_pledgeId = options ''pledge-id'', pq_caller = options ''user'',
            pq_ccType = options ''type''\<rparr> = Inr pledgeAssetDetails"
    and "\<not> resolvable (getNetworkConfig e (JStr (getRemotenetworkid pledgeAssetDetails)))"
  shows "run e options =
         (debug_logging options
            @ [FabricHelper
                 \<lparr>fh_channel = channelName (getNetworkConfig e (options ''source-network'')),
                  fh_contractName = (case DEFAULT_CHAINCODE e of None \<Rightarrow> ''interop''
                                     | Some c \<Rightarrow> if c \<noteq> [] then c else ''interop''),
                  fh_connProfilePath =
                    connProfilePath (getNetworkConfig e (options ''source-network'')),
                  fh_networkName = options ''source-network'',
                  fh_mspId = mspId (getNetworkConfig e (options ''source-network'')),
                  fh_discoveryEnabled = True, fh_userString = options ''user''\<rparr>,
               WalletGet (options ''user''),
               GetLocalAssetPledgeDetails
                 \<lparr>pq_sourceNetworkName = options ''source-network'',
                  pq_pledgeId = options ''pledge-id'', pq_caller = options ''user'',
                  pq_ccType = options ''type''\<rparr>,
               PrintError (''Please use a valid --dest-network. No valid environment found for ''
                 @ js_to_string (options ''dest-network'') @ '' '')],
          Return ())"
proof -
  from assms(13) have "run_pledged e options (js_index (split_on CHR '':'' p) 0) (options ''type'')
      (if options ''type'' = JStr ''token''
       then parseInt (js_index (split_on CHR '':'' p) 1)
       else js_index (split_on CHR '':'' p) 1)
      (getNetworkConfig e (options ''source-network'')) (base64 e certificate)
      pledgeAssetDetails =
    ([PrintError (''Please use a valid --dest-network. No valid environment found for ''
        @ js_to_string (options ''dest-network'') @ '' '')], Return ())"
    by (simp add: run_pledged_def getReclaimViewAddress_unresolvable after_def)
  with run_to_pledged [OF assms(1-12)] show ?thesis
    by (simp add: after_def)
qed

text \<open>
  C2 (as amended). When the configuration of the destination network lacks the
  connection profile path, the channel name or the chaincode name, the builder returns
  the empty address, with no output. The command, given the empty address for the
  destination of its pledge record, prints the invalid-destination message and returns:
  the run sends no request to the interoperation flow, the step that contacts the relay
  and invokes the local reclaim function. The destination is known only from the pledge
  record, so the run has by then connected to the source network, read the wallet and
  queried the local ledger for the pledge record: a run that gets that far consists of
  exactly these three calls and the message.
\<close>

theorem unresolvable_destination_aborts:
  assumes "\<not> resolvable (getNetworkConfig e destNetwork)"
  shows "getReclaimViewAddress e assetCategory assetType assetIdOrQuantity pledgeId pledgerCert
           sourceNetwork recipientCert destNetwork pledgeExpiryTimeSecs = ([], Return '''')
       \<and> (destNetwork = JStr (getRemotenetworkid pledgeAssetDetails) \<longrightarrow>
            run_pledged e options assetType assetCategory assetIdOrQuantity netConfig userCert
              pledgeAssetDetails =
            ([PrintError (''Please use a valid --dest-network. No valid environment found for ''
                @ js_to_string (options ''dest-network'') @ '' '')], Return ())
          \<and> (getLocalAssetPledgeDetails e
               \<lparr>pq_sourceNetworkName = options ''source-network'',
                pq_pledgeId = options ''pledge-id'', pq_caller = options ''user'',
                pq_ccType = options ''type''\<rparr> = Inr pledgeAssetDetails \<longrightarrow>
              flows (fst (run e options)) = []
            \<and> (\<not> truthy (options ''help'') \<and> \<not> truthy (options ''h'')
                \<and> truthy (options ''source-network'') \<and> truthy (options ''user'')
                \<and> truthy (options ''type'') \<and> options ''param'' = JStr p
                \<and> truthy (js_index (split_on CHR '':'' p) 1)
                \<and> (options ''type'' = JStr ''token'' \<longrightarrow>
                     parseInt (js_index (split_on CHR '':'' p) 1) \<noteq> JNaN)
                \<and> resolvable (getNetworkConfig e (options ''source-network''))
                \<and> fabricHelper e
                     \<lparr>fh_channel = channelName (getNetworkConfig e (options ''source-network'')),
                      fh_contractName = (case DEFAULT_CHAINCODE e of None \<Rightarrow> ''interop''
                                         | Some c \<Rightarrow> if c \<noteq> [] then c else ''interop''),
                      fh_connProfilePath =
                        connProfilePath (getNetworkConfig e (options ''source-network'')),
                      fh_networkName = options ''source-network'',
                      fh_mspId = mspId (getNetworkConfig e (options ''source-network'')),
                      fh_discoveryEnabled = True, fh_userString = options ''user''\<rparr> = Inr u
                \<and> wallet_get e (options ''user'') = Some certificate \<longrightarrow>
                run e options =
                  (debug_logging options
                     @ [FabricHelper
                          \<lparr>fh_channel =
                             channelName (getNetworkConfig e (options ''source-network'')),
                           fh_contractName = (case DEFAULT_CHAINCODE e of None \<Rightarrow> ''interop''
                                              | Some c \<Rightarrow> if c \<noteq> [] then c else ''interop''),
                           fh_connProfilePath =
                             connProfilePath (getNetworkConfig e (options ''source-network'')),
                           fh_networkName = options ''source-network'',
                           fh_mspId = mspId (getNetworkConfig e (options ''source-network'')),
                           fh_discoveryEnabled = True, fh_userString = options ''user''\<rparr>,
                        WalletGet (options ''user''),
                        GetLocalAssetPledgeDetails
                          \<lparr>pq_sourceNetworkName = options ''source-network'',
                           pq_pledgeId = options ''pledge-id'', pq_caller = options ''user'',
                           pq_ccType = options ''type''\<rparr>,
                        PrintError
                          (''Please use a valid --dest-network. No valid environment found for ''
                             @ js_to_string (options ''dest-network'') @ '' '')],
                   Return ()))))"
proof (intro conjI impI)
  show "getReclaimViewAddress e assetCategory assetType assetIdOrQuantity pledgeId pledgerCert
           sourceNetwork recipientCert destNetwork pledgeExpiryTimeSecs = ([], Return '''')"
    by (rule getReclaimViewAddress_unresolvable [OF assms])
next
  assume "destNetwork = JStr (getRemotenetworkid pledgeAssetDetails)"
  with assms
  have "\<not> resolvable (getNetworkConfig e (JStr (getRemotenetworkid pledgeAssetDetails)))"
    by simp
  then show "run_pledged e options assetType assetCategory assetIdOrQuantity netConfig userCert
              pledgeAssetDetails =
            ([PrintError (''Please use a valid --dest-network. No valid environment found for ''
                @ js_to_string (options ''dest-network'') @ '' '')], Return ())"
    by (simp add: run_pledged_def getReclaimViewAddress_unresolvable after_def)
next
  assume d: "destNetwork = JStr (getRemotenetworkid pledgeAssetDetails)"
    and q: "getLocalAssetPledgeDetails e
               \<lparr>pq_sourceNetworkName = options ''source-network'',
                pq_pledgeId = options ''pledge-id'', pq_caller = options ''user'',
                pq_ccType = options ''type''\<rparr> = Inr pledgeAssetDetails"
  show "flows (fst (run e options)) = []"
  proof (rule ccontr)
    assume "flows (fst (run e options)) \<noteq> []"
    then obtain r where "r \<in> set (flows (fst (run e options)))"
      by (cases "flows (fst (run e options))") auto
    from flow_in_run [OF this] q obtain p certificate a where
      "getReclaimViewAddress e (options ''type'') (js_index (split_on CHR '':'' p) 0)
         (if options ''type'' = JStr ''token'' then parseInt (js_index (split_on CHR '':'' p) 1)
          else js_index (split_on CHR '':'' p) 1)
         (options ''pledge-id'') (JStr (base64 e certificate)) (options ''source-network'')
         (JStr (getRecipient pledgeAssetDetails))
         (JStr (getRemotenetworkid pledgeAssetDetails))
         (JNum (int (getExpirytimesecs pledgeAssetDetails))) = ([], Return a)"
      and "a \<noteq> ''''"
      by auto
    from resolvable_of_address [OF this] assms d show False
      by simp
  qed
next
  assume d: "destNetwork = JStr (getRemotenetworkid pledgeAssetDetails)"
    and q: "getLocalAssetPledgeDetails e
               \<lparr>pq_sourceNetworkName = options ''source-network'',
                pq_pledgeId = options ''pledge-id'', pq_caller = options ''user'',
                pq_ccType = options ''type''\<rparr> = Inr pledgeAssetDetails"
    and c: "\<not> truthy (options ''help'') \<and> \<not> truthy (options ''h'')
                \<and> truthy (options ''source-network'') \<and> truthy (options ''user'')
                \<and> truthy (options ''type'') \<and> options ''param'' = JStr p
                \<and> truthy (js_index (split_on CHR '':'' p) 1)
                \<and> (options ''type'' = JStr ''token'' \<longrightarrow>
                     parseInt (js_index (split_on CHR '':'' p) 1) \<noteq> JNaN)
                \<and> resolvable (getNetworkConfig e (options ''source-network''))
                \<and> fabricHelper e
                     \<lparr>fh_channel = channelName (getNetworkConfig e (options ''source-network'')),
                      fh_contractName = (case DEFAULT_CHAINCODE e of None \<Rightarrow> ''interop''
                                         | Some c \<Rightarrow> if c \<noteq> [] then c else ''interop''),
                      fh_connProfilePath =
                        connProfilePath (getNetworkConfig e (options ''source-network'')),
                      fh_networkName = options ''source-network'',
                      fh_mspId = mspId (getNetworkConfig e (options ''source-network'')),
                      fh_discoveryEnabled = True, fh_userString = options ''user''\<rparr> = Inr u
                \<and> wallet_get e (options ''user'') = Some certificate"
  from assms d
  have n: "\<not> resolvable (getNetworkConfig e (JStr (getRemotenetworkid pledgeAssetDetails)))"
    by simp
  from c show "run e options =
                  (debug_logging options
                     @ [FabricHelper
                          \<lparr>fh_channel =
                             channelName (getNetworkConfig e (options ''source-network'')),
                           fh_contractName = (case DEFAULT_CHAINCODE e of None \<Rightarrow> ''interop''
                                              | Some c \<Rightarrow> if c \<noteq> [] then c else ''interop''),
                           fh_connProfilePath =
                             connProfilePath (getNetworkConfig e (options ''source-network'')),
                           fh_networkName = options ''source-network'',
                           fh_mspId = mspId (getNetworkConfig e (options ''source-network'')),
                           fh_discoveryEnabled = True, fh_userString = options ''user''\<rparr>,
                        WalletGet (options ''user''),
                        GetLocalAssetPledgeDetails
                          \<lparr>pq_sourceNetworkName = options ''source-network'',
                           pq_pledgeId = options ''pledge-id'', pq_caller = options ''user'',
                           pq_ccType = options ''type''\<rparr>,
                        PrintError
                          (''Please use a valid --dest-network. No valid environment found for ''
                             @ js_to_string (options ''dest-network'') @ '' '')],
                   Return ())"
    by (intro run_unresolvable_destination [where u = u and certificate = certificate
          and pledgeAssetDetails = pledgeAssetDetails and p = p] q n) simp_all
qed

lemma example_source_config:
  "getNetworkConfig example_env (JStr ''network1'') =
     \<lparr>relayEndpoint = JStr ''localhost:9080'', connProfilePath = JStr ''ccp1.json'',
      channelName = JStr ''mychannel'', chaincode = JStr ''simpleassettransfer'',
      mspId = JStr ''Org1MSP''\<rparr>"
  by (simp add: example_env_def example_config_def)

lemma example_helpers:
  "fabricHelper example_env a = Inr ()"
  "wallet_get example_env (JStr ''alice'') = Some ''alice''"
  "base64 example_env c = ''YWxpY2U=''"
  "DEFAULT_CHAINCODE example_env = None"
  "getKeyAndCertForRemoteRequestbyUserName example_env x = Inr ''key-and-cert-of-alice''"
  "getChaincodeConfig example_env y f = [3]"
  by (simp_all add: example_env_def)

theorem unresolvable_destination_aborts_witness:
  "\<not> resolvable (getNetworkConfig example_env (JStr ''network9''))
   \<and> getReclaimViewAddress example_env (JStr ''token'') (JStr ''token1'') (JNum 50)
       (JStr ''p9'') (JStr ''YWxpY2U='') (JStr ''network1'') (JStr ''Ym9i'') (JStr ''network9'')
       (JNum 1700000000) = ([], Return '''')
   \<and> run_pledged example_env reclaim_token_unknown_destination (JStr ''token1'') (JStr ''token'')
       (JNum 50) (getNetworkConfig example_env (JStr ''network1'')) ''YWxpY2U=''
       \<lparr>getRecipient = ''Ym9i'', getRemotenetworkid = ''network9'',
        getExpirytimesecs = 1700000000\<rparr> =
     ([PrintError ''Please use a valid --dest-network. No valid environment found for undefined ''],
      Return ())
   \<and> flows (fst (run example_env reclaim_token_unknown_destination)) = []
   \<and> run example_env reclaim_token_unknown_destination =
     ([FabricHelper
         \<lparr>fh_channel = JStr ''mychannel'', fh_contractName = ''interop'',
          fh_connProfilePath = JStr ''ccp1.json'', fh_networkName = JStr ''network1'',
          fh_mspId = JStr ''Org1MSP'', fh_discoveryEnabled = True,
          fh_userString = JStr ''alice''\<rparr>,
       WalletGet (JStr ''alice''),
       GetLocalAssetPledgeDetails
         \<lparr>pq_sourceNetworkName = JStr ''network1'', pq_pledgeId = JStr ''p9'',
          pq_caller = JStr ''alice'', pq_ccType = JStr ''token''\<rparr>,
       PrintError ''Please use a valid --dest-network. No valid environment found for undefined ''],
      Return ())"
proof -
  have u: "\<not> resolvable (getNetworkConfig example_env (JStr ''network9''))"
    by (rule example_network9_unresolvable)
  have o: "reclaim_token_unknown_destination ''help'' = JUndefined"
    "reclaim_token_unknown_destination ''h'' = JUndefined"
    "reclaim_token_unknown_destination ''debug'' = JUndefined"
    "reclaim_token_unknown_destination ''dest-network'' = JUndefined"
    "reclaim_token_unknown_destination ''source-network'' = JStr ''network1''"
    "reclaim_token_unknown_destination ''user'' = JStr ''alice''"
    "reclaim_token_unknown_destination ''type'' = JStr ''token''"
    "reclaim_token_unknown_destination ''pledge-id'' = JStr ''p9''"
    "reclaim_token_unknown_destination ''param'' = JStr ''token1:50''"
    by (simp_all add: reclaim_token_unknown_destination_def options_of_def)
  have q: "getLocalAssetPledgeDetails example_env
      \<lparr>pq_sourceNetworkName = JStr ''network1'', pq_pledgeId = JStr ''p9'',
       pq_caller = JStr ''alice'', pq_ccType = JStr ''token''\<rparr> =
     Inr \<lparr>getRecipient = ''Ym9i'', getRemotenetworkid = ''network9'',
          getExpirytimesecs = 1700000000\<rparr>"
    by (simp add: example_env_def example_pledges_def)
  have s: "js_index (split_on CHR '':'' ''token1:50'') 1 = JStr ''50''"
    by (simp add: js_index_def)
  have r: "resolvable (getNetworkConfig example_env (JStr ''network1''))"
    by (simp add: example_source_config resolvable_def)
  from unresolvable_destination_aborts [where e = example_env
      and destNetwork = "JStr ''network9''" and assetCategory = "JStr ''token''"
      and assetType = "JStr ''token1''" and assetIdOrQuantity = "JNum 50"
      and pledgeId = "JStr ''p9''" and pledgerCert = "JStr ''YWxpY2U=''"
      and sourceNetwork = "JStr ''network1''" and recipientCert = "JStr ''Ym9i''"
      and pledgeExpiryTimeSecs = "JNum 1700000000"
      and pledgeAssetDetails = "\<lparr>getRecipient = ''Ym9i'', getRemotenetworkid = ''network9'',
        getExpirytimesecs = 1700000000\<rparr>"
      and options = reclaim_token_unknown_destination
      and netConfig = "getNetworkConfig example_env (JStr ''network1'')"
      and userCert = "''YWxpY2U=''" and p = "''token1:50''" and u = "()"
      and certificate = "''alice''", OF u]
    u q s r
  show ?thesis
    by (simp add: o example_helpers example_source_config parseInt_50 debug_logging_def)
qed

theorem pledge_record_queried_before_abort:
  "run example_env reclaim_unknown_destination =
     ([FabricHelper
         \<lparr>fh_channel = JStr ''mychannel'', fh_contractName = ''interop'',
          fh_connProfilePath = JStr ''ccp1.json'', fh_networkName = JStr ''network1'',
          fh_mspId = JStr ''Org1MSP'', fh_discoveryEnabled = True,
          fh_userString = JStr ''alice''\<rparr>,
       WalletGet (JStr ''alice''),
       GetLocalAssetPledgeDetails
         \<lparr>pq_sourceNetworkName = JStr ''network1'', pq_pledgeId = JStr ''p9'',
          pq_caller = JStr ''alice'', pq_ccType = JStr ''bond''\<rparr>,
       PrintError ''Please use a valid --dest-network. No valid environment found for undefined ''],
      Return ())"
  by (simp add: run_defs example_defs reclaim_unknown_destination_def)

lemma flows_debug_logging [simp]: "flows (debug_logging options) = []"
  by (simp add: debug_logging_def)

lemma address_format_not_empty: "address_format relay network channel contract func args \<noteq> ''''"
  by (simp add: address_format_def)

text \<open>
  C5. A reclaim for category \<^verbatim>\<open>bond\<close> or \<^verbatim>\<open>token\<close> whose arguments pass the checks,
  whose source and destination networks are configured and whose identity, pledge record
  and key are found, sends exactly one request to the interoperation flow. The request
  carries one view address, to be signed: the claim-status address built for the
  destination network of the pledge record, with \<^verbatim>\<open>GetAssetClaimStatus\<close> for category
  \<^verbatim>\<open>bond\<close> and \<^verbatim>\<open>GetTokenAssetClaimStatus\<close> for category \<^verbatim>\<open>token\<close>. The local function is
  \<^verbatim>\<open>ReclaimTokenAsset\<close> for category \<^verbatim>\<open>token\<close> and \<^verbatim>\<open>ReclaimAsset\<close> otherwise, invoked
  on the source network: its name, channel, chaincode, membership provider and relay are
  those of \<^verbatim>\<open>--source-network\<close>. Conversely, every request that any run sends has this
  form, and no other category reaches the flow.
\<close>

theorem reclaim_flow_request:
  "(\<not> truthy (options ''help'') \<and> \<not> truthy (options ''h'')
     \<and> truthy (options ''source-network'') \<and> truthy (options ''user'')
     \<and> (options ''type'' = JStr ''bond'' \<or> options ''type'' = JStr ''token'')
     \<and> options ''param'' = JStr p
     \<and> truthy (js_index (split_on CHR '':'' p) 1)
     \<and> (options ''type'' = JStr ''token'' \<longrightarrow>
          parseInt (js_index (split_on CHR '':'' p) 1) \<noteq> JNaN)
     \<and> resolvable (getNetworkConfig e (options ''source-network''))
     \<and> fabricHelper e
          \<lparr>fh_channel = channelName (getNetworkConfig e (options ''source-network'')),
           fh_contractName = (case DEFAULT_CHAINCODE e of None \<Rightarrow> ''interop''
                              | Some c \<Rightarrow> if c \<noteq> [] then c else ''interop''),
           fh_connProfilePath = connProfilePath (getNetworkConfig e (options ''source-network'')),
           fh_networkName = options ''source-network'',
           fh_mspId = mspId (getNetworkConfig e (options ''source-network'')),
           fh_discoveryEnabled = True, fh_userString = options ''user''\<rparr> = Inr u
     \<and> wallet_get e (options ''user'') = Some certificate
     \<and> getLocalAssetPledgeDetails e
          \<lparr>pq_sourceNetworkName = options ''source-network'',
           pq_pledgeId = options ''pledge-id'', pq_caller = options ''user'',
           pq_ccType = options ''type''\<rparr> = Inr pledgeAssetDetails
     \<and> resolvable (getNetworkConfig e (JStr (getRemotenetworkid pledgeAssetDetails)))
     \<and> getKeyAndCertForRemoteRequestbyUserName e (options ''user'') = Inr keyCert
     \<and> relayTlsCAFiles options = Inr caFiles \<longrightarrow>
     flows (fst (run e options)) =
       [\<lparr>fr_networkName = options ''source-network'',
         fr_invokeObject =
           \<lparr>io_channel = channelName (getNetworkConfig e (options ''source-network'')),
            io_ccFunc = (if options ''type'' = JStr ''token'' then ''ReclaimTokenAsset''
                         else ''ReclaimAsset''),
            io_ccArgs = [options ''pledge-id'', JStr (getRecipient pledgeAssetDetails),
              JStr (getRemotenetworkid pledgeAssetDetails), JStr ''''],
            io_contractName = chaincode (getNetworkConfig e (options ''source-network''))\<rparr>,
         fr_mspId = mspId (getNetworkConfig e (options ''source-network'')),
         fr_relayEndpoint = relayEndpoint (getNetworkConfig e (options ''source-network'')),
         fr_replaceIndices =
           getChaincodeConfig e (chaincode (getNetworkConfig e (options ''source-network'')))
             (if options ''type'' = JStr ''token'' then ''ReclaimTokenAsset''
              else ''ReclaimAsset''),
         fr_views =
           [\<lparr>vr_address =
               address_format
                 (js_to_string (relayEndpoint
                    (getNetworkConfig e (JStr (getRemotenetworkid pledgeAssetDetails)))))
                 (getRemotenetworkid pledgeAssetDetails)
                 (js_to_string (channelName
                    (getNetworkConfig e (JStr (getRemotenetworkid pledgeAssetDetails)))))
                 (js_to_string (chaincode
                    (getNetworkConfig e (JStr (getRemotenetworkid pledgeAssetDetails)))))
                 (if options ''type'' = JStr ''bond'' then ''GetAssetClaimStatus''
                  else ''GetTokenAssetClaimStatus'')
                 (claim_status_args (options ''pledge-id'') (js_index (split_on CHR '':'' p) 0)
                    (if options ''type'' = JStr ''token''
                     then parseInt (js_index (split_on CHR '':'' p) 1)
                     else js_index (split_on CHR '':'' p) 1)
                    (JStr (getRecipient pledgeAssetDetails)) (JStr (base64 e certificate))
                    (options ''source-network'')
                    (JNum (int (getExpirytimesecs pledgeAssetDetails)))),
             vr_Sign = True\<rparr>],
         fr_keyCert = keyCert, fr_flag = False,
         fr_relayTls = (options ''relay-tls'' = JStr ''true''),
         fr_relayTlsCAFiles = caFiles\<rparr>])
   \<and> (r \<in> set (flows (fst (run e options))) \<longrightarrow>
       (\<exists>p certificate pledgeAssetDetails.
          options ''param'' = JStr p
        \<and> wallet_get e (options ''user'') = Some certificate
        \<and> getLocalAssetPledgeDetails e
             \<lparr>pq_sourceNetworkName = options ''source-network'',
              pq_pledgeId = options ''pledge-id'', pq_caller = options ''user'',
              pq_ccType = options ''type''\<rparr> = Inr pledgeAssetDetails
        \<and> (options ''type'' = JStr ''bond'' \<or> options ''type'' = JStr ''token'')
        \<and> fr_views r =
            [\<lparr>vr_address =
                address_format
                  (js_to_string (relayEndpoint
                     (getNetworkConfig e (JStr (getRemotenetworkid pledgeAssetDetails)))))
                  (getRemotenetworkid pledgeAssetDetails)
                  (js_to_string (channelName
                     (getNetworkConfig e (JStr (getRemotenetworkid pledgeAssetDetails)))))
                  (js_to_string (chaincode
                     (getNetworkConfig e (JStr (getRemotenetworkid pledgeAssetDetails)))))
                  (if options ''type'' = JStr ''bond'' then ''GetAssetClaimStatus''
                   else ''GetTokenAssetClaimStatus'')
                  (claim_status_args (options ''pledge-id'') (js_index (split_on CHR '':'' p) 0)
                     (if options ''type'' = JStr ''token''
                      then parseInt (js_index (split_on CHR '':'' p) 1)
                      else js_index (split_on CHR '':'' p) 1)
                     (JStr (getRecipient pledgeAssetDetails)) (JStr (base64 e certificate))
                     (options ''source-network'')
                     (JNum (int (getExpirytimesecs pledgeAssetDetails)))),
              vr_Sign = True\<rparr>]
        \<and> io_ccFunc (fr_invokeObject r) =
            (if options ''type'' = JStr ''token'' then ''ReclaimTokenAsset''
             else ''ReclaimAsset'')
        \<and> fr_networkName r = options ''source-network''
        \<and> io_channel (fr_invokeObject r) =
            channelName (getNetworkConfig e (options ''source-network''))
        \<and> io_contractName (fr_invokeObject r) =
            chaincode (getNetworkConfig e (options ''source-network''))))"
proof (intro conjI impI)
  assume c: "\<not> truthy (options ''help'') \<and> \<not> truthy (options ''h'')
     \<and> truthy (options ''source-network'') \<and> truthy (options ''user'')
     \<and> (options ''type'' = JStr ''bond'' \<or> options ''type'' = JStr ''token'')
     \<and> options ''param'' = JStr p
     \<and> truthy (js_index (split_on CHR '':'' p) 1)
     \<and> (options ''type'' = JStr ''token'' \<longrightarrow>
          parseInt (js_index (split_on CHR '':'' p) 1) \<noteq> JNaN)
     \<and> resolvable (getNetworkConfig e (options ''source-network''))
     \<and> fabricHelper e
          \<lparr>fh_channel = channelName (getNetworkConfig e (options ''source-network'')),
           fh_contractName = (case DEFAULT_CHAINCODE e of None \<Rightarrow> ''interop''
                              | Some c \<Rightarrow> if c \<noteq> [] then c else ''interop''),
           fh_connProfilePath = connProfilePath (getNetworkConfig e (options ''source-network'')),
           fh_networkName = options ''source-network'',
           fh_mspId = mspId (getNetworkConfig e (options ''source-network'')),
           fh_discoveryEnabled = True, fh_userString = options ''user''\<rparr> = Inr u
     \<and> wallet_get e (options ''user'') = Some certificate
     \<and> getLocalAssetPledgeDetails e
          \<lparr>pq_sourceNetworkName = options ''source-network'',
           pq_pledgeId = options ''pledge-id'', pq_caller = options ''user'',
           pq_ccType = options ''type''\<rparr> = Inr pledgeAssetDetails
     \<and> resolvable (getNetworkConfig e (JStr (getRemotenetworkid pledgeAssetDetails)))
     \<and> getKeyAndCertForRemoteRequestbyUserName e (options ''user'') = Inr keyCert
     \<and> relayTlsCAFiles options = Inr caFiles"
  then have t: "truthy (options ''type'')"
    by auto
  from c have cat: "options ''type'' = JStr ''bond'' \<or> options ''type'' = JStr ''token''"
    by simp
  from c have d: "resolvable (getNetworkConfig e (JStr (getRemotenetworkid pledgeAssetDetails)))"
    by simp
  from c have k: "getKeyAndCertForRemoteRequestbyUserName e (options ''user'') = Inr keyCert"
    and f: "relayTlsCAFiles options = Inr caFiles"
    by simp_all
  have 1: "run e options =
         after (debug_logging options
                 @ [FabricHelper
                      \<lparr>fh_channel = channelName (getNetworkConfig e (options ''source-network'')),
                       fh_contractName = (case DEFAULT_CHAINCODE e of None \<Rightarrow> ''interop''
                                          | Some c \<Rightarrow> if c \<noteq> [] then c else ''interop''),
                       fh_connProfilePath =
                         connProfilePath (getNetworkConfig e (options ''source-network'')),
                       fh_networkName = options ''source-network'',
                       fh_mspId = mspId (getNetworkConfig e (options ''source-network'')),
                       fh_discoveryEnabled = True, fh_userString = options ''user''\<rparr>,
                    WalletGet (options ''user''),
                    GetLocalAssetPledgeDetails
                      \<lparr>pq_sourceNetworkName = options ''source-network'',
                       pq_pledgeId = options ''pledge-id'', pq_caller = options ''user'',
                       pq_ccType = options ''type''\<rparr>])
           (run_pledged e options (js_index (split_on CHR '':'' p) 0) (options ''type'')
              (if options ''type'' = JStr ''token''
               then parseInt (js_index (split_on CHR '':'' p) 1)
               else js_index (split_on CHR '':'' p) 1)
              (getNetworkConfig e (options ''source-network'')) (base64 e certificate)
              pledgeAssetDetails)"
    by (rule run_to_pledged [where u = u]) (use c t in simp_all)
  have 2: "run_pledged e options (js_index (split_on CHR '':'' p) 0) (options ''type'')
              (if options ''type'' = JStr ''token''
               then parseInt (js_index (split_on CHR '':'' p) 1)
               else js_index (split_on CHR '':'' p) 1)
              (getNetworkConfig e (options ''source-network'')) (base64 e certificate)
              pledgeAssetDetails =
           run_flow e options (options ''type'') (getNetworkConfig e (options ''source-network''))
             pledgeAssetDetails
             (address_format
                 (js_to_string (relayEndpoint
                    (getNetworkConfig e (JStr (getRemotenetworkid pledgeAssetDetails)))))
                 (getRemotenetworkid pledgeAssetDetails)
                 (js_to_string (channelName
                    (getNetworkConfig e (JStr (getRemotenetworkid pledgeAssetDetails)))))
                 (js_to_string (chaincode
                    (getNetworkConfig e (JStr (getRemotenetworkid pledgeAssetDetails)))))
                 (if options ''type'' = JStr ''bond'' then ''GetAssetClaimStatus''
                  else ''GetTokenAssetClaimStatus'')
                 (claim_status_args (options ''pledge-id'') (js_index (split_on CHR '':'' p) 0)
                    (if options ''type'' = JStr ''token''
                     then parseInt (js_index (split_on CHR '':'' p) 1)
                     else js_index (split_on CHR '':'' p) 1)
                    (JStr (getRecipient pledgeAssetDetails)) (JStr (base64 e certificate))
                    (options ''source-network'')
                    (JNum (int (getExpirytimesecs pledgeAssetDetails)))))"
    using cat
    by (simp add: run_pledged_def getReclaimViewAddress_resolvable [OF d]
        address_format_not_empty after_def)
  show "flows (fst (run e options)) =
       [\<lparr>fr_networkName = options ''source-network'',
         fr_invokeObject =
           \<lparr>io_channel = channelName (getNetworkConfig e (options ''source-network'')),
            io_ccFunc = (if options ''type'' = JStr ''token'' then ''ReclaimTokenAsset''
                         else ''ReclaimAsset''),
            io_ccArgs = [options ''pledge-id'', JStr (getRecipient pledgeAssetDetails),
              JStr (getRemotenetworkid pledgeAssetDetails), JStr ''''],
            io_contractName = chaincode (getNetworkConfig e (options ''source-network''))\<rparr>,
         fr_mspId = mspId (getNetworkConfig e (options ''source-network'')),
         fr_relayEndpoint = relayEndpoint (getNetworkConfig e (options ''source-network'')),
         fr_replaceIndices =
           getChaincodeConfig e (chaincode (getNetworkConfig e (options ''source-network'')))
             (if options ''type'' = JStr ''token'' then ''ReclaimTokenAsset''
              else ''ReclaimAsset''),
         fr_views =
           [\<lparr>vr_address =
               address_format
                 (js_to_string (relayEndpoint
                    (getNetworkConfig e (JStr (getRemotenetworkid pledgeAssetDetails)))))
                 (getRemotenetworkid pledgeAssetDetails)
                 (js_to_string (channelName
                    (getNetworkConfig e (JStr (getRemotenetworkid pledgeAssetDetails)))))
                 (js_to_string (chaincode
                    (getNetworkConfig e (JStr (getRemotenetworkid pledgeAssetDetails)))))
                 (if options ''type'' = JStr ''bond'' then ''GetAssetClaimStatus''
                  else ''GetTokenAssetClaimStatus'')
                 (claim_status_args (options ''pledge-id'') (js_index (split_on CHR '':'' p) 0)
                    (if options ''type'' = JStr ''token''
                     then parseInt (js_index (split_on CHR '':'' p) 1)
                     else js_index (split_on CHR '':'' p) 1)
                    (JStr (getRecipient pledgeAssetDetails)) (JStr (base64 e certificate))
                    (options ''source-network'')
                    (JNum (int (getExpirytimesecs pledgeAssetDetails)))),
             vr_Sign = True\<rparr>],
         fr_keyCert = keyCert, fr_flag = False,
         fr_relayTls = (options ''relay-tls'' = JStr ''true''),
         fr_relayTlsCAFiles = caFiles\<rparr>]"
    unfolding 1 2 by (simp add: flows_run_flow_sent [OF k f])
next
  assume a: "r \<in> set (flows (fst (run e options)))"
  from flow_in_run [OF a] obtain p certificate pledgeAssetDetails a where
    p: "options ''param'' = JStr p"
    and w: "wallet_get e (options ''user'') = Some certificate"
    and q: "getLocalAssetPledgeDetails e
         \<lparr>pq_sourceNetworkName = options ''source-network'',
          pq_pledgeId = options ''pledge-id'', pq_caller = options ''user'',
          pq_ccType = options ''type''\<rparr> = Inr pledgeAssetDetails"
    and b: "getReclaimViewAddress e (options ''type'') (js_index (split_on CHR '':'' p) 0)
         (if options ''type'' = JStr ''token'' then parseInt (js_index (split_on CHR '':'' p) 1)
          else js_index (split_on CHR '':'' p) 1)
         (options ''pledge-id'') (JStr (base64 e certificate)) (options ''source-network'')
         (JStr (getRecipient pledgeAssetDetails))
         (JStr (getRemotenetworkid pledgeAssetDetails))
         (JNum (int (getExpirytimesecs pledgeAssetDetails))) = ([], Return a)"
    and a: "a \<noteq> ''''"
    and f: "r \<in> set (flows (fst (run_flow e options (options ''type'')
           (getNetworkConfig e (options ''source-network'')) pledgeAssetDetails a)))"
    by blast
  have d: "resolvable (getNetworkConfig e (JStr (getRemotenetworkid pledgeAssetDetails)))"
    by (rule resolvable_of_address [OF b a])
  from b getReclaimViewAddress_resolvable [OF d, of "options ''type''"
      "js_index (split_on CHR '':'' p) 0"
      "if options ''type'' = JStr ''token'' then parseInt (js_index (split_on CHR '':'' p) 1)
       else js_index (split_on CHR '':'' p) 1"
      "options ''pledge-id''" "JStr (base64 e certificate)" "options ''source-network''"
      "JStr (getRecipient pledgeAssetDetails)"
      "JNum (int (getExpirytimesecs pledgeAssetDetails))"]
  have c: "options ''type'' = JStr ''bond'' \<or> options ''type'' = JStr ''token''"
    and v: "a = address_format
              (js_to_string (relayEndpoint
                 (getNetworkConfig e (JStr (getRemotenetworkid pledgeAssetDetails)))))
              (getRemotenetworkid pledgeAssetDetails)
              (js_to_string (channelName
                 (getNetworkConfig e (JStr (getRemotenetworkid pledgeAssetDetails)))))
              (js_to_string (chaincode
                 (getNetworkConfig e (JStr (getRemotenetworkid pledgeAssetDetails)))))
              (if options ''type'' = JStr ''bond'' then ''GetAssetClaimStatus''
               else ''GetTokenAssetClaimStatus'')
              (claim_status_args (options ''pledge-id'') (js_index (split_on CHR '':'' p) 0)
                 (if options ''type'' = JStr ''token''
                  then parseInt (js_index (split_on CHR '':'' p) 1)
                  else js_index (split_on CHR '':'' p) 1)
                 (JStr (getRecipient pledgeAssetDetails)) (JStr (base64 e certificate))
                 (options ''source-network'')
                 (JNum (int (getExpirytimesecs pledgeAssetDetails))))"
    by (auto split: if_splits)
  from flows_run_flow [OF f] p w q c v
  show "\<exists>p certificate pledgeAssetDetails.
          options ''param'' = JStr p
        \<and> wallet_get e (options ''user'') = Some certificate
        \<and> getLocalAssetPledgeDetails e
             \<lparr>pq_sourceNetworkName = options ''source-network'',
              pq_pledgeId = options ''pledge-id'', pq_caller = options ''user'',
              pq_ccType = options ''type''\<rparr> = Inr pledgeAssetDetails
        \<and> (options ''type'' = JStr ''bond'' \<or> options ''type'' = JStr ''token'')
        \<and> fr_views r =
            [\<lparr>vr_address =
                address_format
                  (js_to_string (relayEndpoint
                     (getNetworkConfig e (JStr (getRemotenetworkid pledgeAssetDetails)))))
                  (getRemotenetworkid pledgeAssetDetails)
                  (js_to_string (channelName
                     (getNetworkConfig e (JStr (getRemotenetworkid pledgeAssetDetails)))))
                  (js_to_string (chaincode
                     (getNetworkConfig e (JStr (getRemotenetworkid pledgeAssetDetails)))))
                  (if options ''type'' = JStr ''bond'' then ''GetAssetClaimStatus''
                   else ''GetTokenAssetClaimStatus'')
                  (claim_status_args (options ''pledge-id'') (js_index (split_on CHR '':'' p) 0)
                     (if options ''type'' = JStr ''token''
                      then parseInt (js_index (split_on CHR '':'' p) 1)
                      else js_index (split_on CHR '':'' p) 1)
                     (JStr (getRecipient pledgeAssetDetails)) (JStr (base64 e certificate))
                     (options ''source-network'')
                     (JNum (int (getExpirytimesecs pledgeAssetDetails)))),
              vr_Sign = True\<rparr>]
        \<and> io_ccFunc (fr_invokeObject r) =
            (if options ''type'' = JStr ''token'' then ''ReclaimTokenAsset''
             else ''ReclaimAsset'')
        \<and> fr_networkName r = options ''source-network''
        \<and> io_channel (fr_invokeObject r) =
            channelName (getNetworkConfig e (options ''source-network''))
        \<and> io_contractName (fr_invokeObject r) =
            chaincode (getNetworkConfig e (options ''source-network''))"
    by blast
qed

lemma example_pledge_p1:
  "getLocalAssetPledgeDetails example_env
      \<lparr>pq_sourceNetworkName = JStr ''network1'', pq_pledgeId = JStr ''p1'',
       pq_caller = JStr ''alice'', pq_ccType = c\<rparr> =
     Inr \<lparr>getRecipient = ''Ym9i'', getRemotenetworkid = ''network2'',
          getExpirytimesecs = 1700000000\<rparr>"
  by (simp add: example_env_def example_pledges_def)

lemma example_destination_config:
  "getNetworkConfig example_env (JStr ''network2'') =
      \<lparr>relayEndpoint = JStr ''localhost:9083'', connProfilePath = JStr ''ccp2.json'',
       channelName = JStr ''mychannel'', chaincode = JStr ''simpleassettransfer'',
       mspId = JStr ''Org1MSP''\<rparr>"
  by (simp add: example_env_def example_config_def)

theorem reclaim_flow_request_witness:
  "flows (fst (run example_env reclaim_bond)) =
     [example_request ''ReclaimAsset''
        ''localhost:9083/network2/mychannel:simpleassettransfer:GetAssetClaimStatus:p1:bond01:a03:Ym9i:YWxpY2U=:network1:1700000000'']
   \<and> flows (fst (run example_env reclaim_token_50)) =
     [example_request ''ReclaimTokenAsset''
        ''localhost:9083/network2/mychannel:simpleassettransfer:GetTokenAssetClaimStatus:p1:token1:50:Ym9i:YWxpY2U=:network1:1700000000'']
   \<and> example_request ''ReclaimAsset''
        ''localhost:9083/network2/mychannel:simpleassettransfer:GetAssetClaimStatus:p1:bond01:a03:Ym9i:YWxpY2U=:network1:1700000000''
       \<in> set (flows (fst (run example_env reclaim_bond)))
   \<and> (\<exists>p certificate pledgeAssetDetails.
        reclaim_bond ''param'' = JStr p
      \<and> wallet_get example_env (reclaim_bond ''user'') = Some certificate
      \<and> getLocalAssetPledgeDetails example_env
           \<lparr>pq_sourceNetworkName = reclaim_bond ''source-network'',
            pq_pledgeId = reclaim_bond ''pledge-id'', pq_caller = reclaim_bond ''user'',
            pq_ccType = reclaim_bond ''type''\<rparr> = Inr pledgeAssetDetails
      \<and> io_ccFunc (fr_invokeObject (example_request ''ReclaimAsset''
           ''localhost:9083/network2/mychannel:simpleassettransfer:GetAssetClaimStatus:p1:bond01:a03:Ym9i:YWxpY2U=:network1:1700000000''))
         = (if reclaim_bond ''type'' = JStr ''token'' then ''ReclaimTokenAsset''
            else ''ReclaimAsset''))"
proof -
  have b: "reclaim_bond ''help'' = JUndefined" "reclaim_bond ''h'' = JUndefined"
    "reclaim_bond ''relay-tls'' = JUndefined" "reclaim_bond ''relay-tls-ca-files'' = JUndefined"
    "reclaim_bond ''source-network'' = JStr ''network1''" "reclaim_bond ''user'' = JStr ''alice''"
    "reclaim_bond ''type'' = JStr ''bond''" "reclaim_bond ''pledge-id'' = JStr ''p1''"
    "reclaim_bond ''param'' = JStr ''bond01:a03''"
    by (simp_all add: reclaim_bond_def options_of_def)
  have t: "reclaim_token_50 ''help'' = JUndefined" "reclaim_token_50 ''h'' = JUndefined"
    "reclaim_token_50 ''relay-tls'' = JUndefined"
    "reclaim_token_50 ''relay-tls-ca-files'' = JUndefined"
    "reclaim_token_50 ''source-network'' = JStr ''network1''"
    "reclaim_token_50 ''user'' = JStr ''alice''"
    "reclaim_token_50 ''type'' = JStr ''token''" "reclaim_token_50 ''pledge-id'' = JStr ''p1''"
    "reclaim_token_50 ''param'' = JStr ''token1:50''"
    by (simp_all add: reclaim_token_50_def options_of_def)
  have s: "split_on CHR '':'' ''bond01:a03'' = [''bond01'', ''a03'']"
    "split_on CHR '':'' ''token1:50'' = [''token1'', ''50'']"
    by simp_all
  have c: "relayTlsCAFiles reclaim_bond = Inr []" "relayTlsCAFiles reclaim_token_50 = Inr []"
    by (simp_all add: relayTlsCAFiles_def b t)
  have r: "resolvable (getNetworkConfig example_env (JStr ''network1''))"
    "resolvable (getNetworkConfig example_env (JStr ''network2''))"
    by (simp_all add: example_source_config example_destination_config resolvable_def)
  note facts = s c resolvable_def example_helpers example_pledge_p1 example_source_config
    example_destination_config js_index_def parseInt_50 show_int_50 show_int_1700000000
    example_request_def address_format_def claim_status_args_def
  from reclaim_flow_request [where e = example_env and options = reclaim_bond
      and p = "''bond01:a03''" and u = "()" and certificate = "''alice''"
      and pledgeAssetDetails = "\<lparr>getRecipient = ''Ym9i'', getRemotenetworkid = ''network2'',
        getExpirytimesecs = 1700000000\<rparr>"
      and keyCert = "''key-and-cert-of-alice''" and caFiles = "[]", THEN conjunct1]
  have 1: "flows (fst (run example_env reclaim_bond)) =
     [example_request ''ReclaimAsset''
        ''localhost:9083/network2/mychannel:simpleassettransfer:GetAssetClaimStatus:p1:bond01:a03:Ym9i:YWxpY2U=:network1:1700000000'']"
    by (simp add: b facts)
  from reclaim_flow_request [where e = example_env and options = reclaim_token_50
      and p = "''token1:50''" and u = "()" and certificate = "''alice''"
      and pledgeAssetDetails = "\<lparr>getRecipient = ''Ym9i'', getRemotenetworkid = ''network2'',
        getExpirytimesecs = 1700000000\<rparr>"
      and keyCert = "''key-and-cert-of-alice''" and caFiles = "[]", THEN conjunct1]
  have 2: "flows (fst (run example_env reclaim_token_50)) =
     [example_request ''ReclaimTokenAsset''
        ''localhost:9083/network2/mychannel:simpleassettransfer:GetTokenAssetClaimStatus:p1:token1:50:Ym9i:YWxpY2U=:network1:1700000000'']"
    by (simp add: t facts)
  have 3: "example_request ''ReclaimAsset''
        ''localhost:9083/network2/mychannel:simpleassettransfer:GetAssetClaimStatus:p1:bond01:a03:Ym9i:YWxpY2U=:network1:1700000000''
       \<in> set (flows (fst (run example_env reclaim_bond)))"
    by (simp add: 1)
  from reclaim_flow_request [where e = example_env and options = reclaim_bond
      and r = "example_request ''ReclaimAsset''
        ''localhost:9083/network2/mychannel:simpleassettransfer:GetAssetClaimStatus:p1:bond01:a03:Ym9i:YWxpY2U=:network1:1700000000''",
      THEN conjunct2] 3
  have 4: "\<exists>p certificate pledgeAssetDetails.
        reclaim_bond ''param'' = JStr p
      \<and> wallet_get example_env (reclaim_bond ''user'') = Some certificate
      \<and> getLocalAssetPledgeDetails example_env
           \<lparr>pq_sourceNetworkName = reclaim_bond ''source-network'',
            pq_pledgeId = reclaim_bond ''pledge-id'', pq_caller = reclaim_bond ''user'',
            pq_ccType = reclaim_bond ''type''\<rparr> = Inr pledgeAssetDetails
      \<and> io_ccFunc (fr_invokeObject (example_request ''ReclaimAsset''
           ''localhost:9083/network2/mychannel:simpleassettransfer:GetAssetClaimStatus:p1:bond01:a03:Ym9i:YWxpY2U=:network1:1700000000''))
         = (if reclaim_bond ''type'' = JStr ''token'' then ''ReclaimTokenAsset''
            else ''ReclaimAsset'')"
    by blast
  from 1 2 3 4 show ?thesis
    by blast
qed

text \<open>
  Where the destination comes from. In every request sent to the interoperation flow, the
  destination network, the recipient certificate and the expiry time of the view address,
  and the recipient and destination network among the arguments of the local invocation,
  are those of the pledge record that \<^verbatim>\<open>getLocalAssetPledgeDetails\<close> returned for
  \<^verbatim>\<open>--pledge-id\<close> on the source network. The requests of a run do not depend on the value
  of an option \<^verbatim>\<open>dest-network\<close>, and the help of the command lists no
  \<^verbatim>\<open>--dest-network\<close>.
\<close>

lemma destination_from_pledge_record:
  "(r \<in> set (flows (fst (run e options))) \<longrightarrow>
      (\<exists>p certificate pledgeAssetDetails a.
          options ''param'' = JStr p
        \<and> wallet_get e (options ''user'') = Some certificate
        \<and> getLocalAssetPledgeDetails e
             \<lparr>pq_sourceNetworkName = options ''source-network'',
              pq_pledgeId = options ''pledge-id'', pq_caller = options ''user'',
              pq_ccType = options ''type''\<rparr> = Inr pledgeAssetDetails
        \<and> getReclaimViewAddress e (options ''type'') (js_index (split_on CHR '':'' p) 0)
             (if options ''type'' = JStr ''token''
              then parseInt (js_index (split_on CHR '':'' p) 1)
              else js_index (split_on CHR '':'' p) 1)
             (options ''pledge-id'') (JStr (base64 e certificate)) (options ''source-network'')
             (JStr (getRecipient pledgeAssetDetails))
             (JStr (getRemotenetworkid pledgeAssetDetails))
             (JNum (int (getExpirytimesecs pledgeAssetDetails))) = ([], Return a)
        \<and> fr_views r = [\<lparr>vr_address = a, vr_Sign = True\<rparr>]
        \<and> io_ccArgs (fr_invokeObject r) =
             [options ''pledge-id'', JStr (getRecipient pledgeAssetDetails),
              JStr (getRemotenetworkid pledgeAssetDetails), JStr '''']))
   \<and> flows (fst (run e (options(''dest-network'' := v)))) = flows (fst (run e options))
   \<and> ''--dest-network'' \<notin> set help_options"
proof (intro conjI impI)
  assume "r \<in> set (flows (fst (run e options)))"
  from flow_in_run [OF this] obtain p certificate pledgeAssetDetails a where
    p: "options ''param'' = JStr p"
    and w: "wallet_get e (options ''user'') = Some certificate"
    and q: "getLocalAssetPledgeDetails e
         \<lparr>pq_sourceNetworkName = options ''source-network'',
          pq_pledgeId = options ''pledge-id'', pq_caller = options ''user'',
          pq_ccType = options ''type''\<rparr> = Inr pledgeAssetDetails"
    and b: "getReclaimViewAddress e (options ''type'') (js_index (split_on CHR '':'' p) 0)
         (if options ''type'' = JStr ''token'' then parseInt (js_index (split_on CHR '':'' p) 1)
          else js_index (split_on CHR '':'' p) 1)
         (options ''pledge-id'') (JStr (base64 e certificate)) (options ''source-network'')
         (JStr (getRecipient pledgeAssetDetails))
         (JStr (getRemotenetworkid pledgeAssetDetails))
         (JNum (int (getExpirytimesecs pledgeAssetDetails))) = ([], Return a)"
    and f: "r \<in> set (flows (fst (run_flow e options (options ''type'')
           (getNetworkConfig e (options ''source-network'')) pledgeAssetDetails a)))"
    by blast
  from flows_run_flow [OF f] p w q b
  show "\<exists>p certificate pledgeAssetDetails a.
          options ''param'' = JStr p
        \<and> wallet_get e (options ''user'') = Some certificate
        \<and> getLocalAssetPledgeDetails e
             \<lparr>pq_sourceNetworkName = options ''source-network'',
              pq_pledgeId = options ''pledge-id'', pq_caller = options ''user'',
              pq_ccType = options ''type''\<rparr> = Inr pledgeAssetDetails
        \<and> getReclaimViewAddress e (options ''type'') (js_index (split_on CHR '':'' p) 0)
             (if options ''type'' = JStr ''token''
              then parseInt (js_index (split_on CHR '':'' p) 1)
              else js_index (split_on CHR '':'' p) 1)
             (options ''pledge-id'') (JStr (base64 e certificate)) (options ''source-network'')
             (JStr (getRecipient pledgeAssetDetails))
             (JStr (getRemotenetworkid pledgeAssetDetails))
             (JNum (int (getExpirytimesecs pledgeAssetDetails))) = ([], Return a)
        \<and> fr_views r = [\<lparr>vr_address = a, vr_Sign = True\<rparr>]
        \<and> io_ccArgs (fr_invokeObject r) =
             [options ''pledge-id'', JStr (getRecipient pledgeAssetDetails),
              JStr (getRemotenetworkid pledgeAssetDetails), JStr '''']"
    by blast
next
  show "flows (fst (run e (options(''dest-network'' := v)))) = flows (fst (run e options))"
    by (rule flows_run_dest_network)
next
  show "''--dest-network'' \<notin> set help_options"
    by (simp add: help_options_def)
qed

text \<open>
  C10. The command documents no option \<^verbatim>\<open>--dest-network\<close>, and the destination it
  checks is that of the pledge record; yet line 178 reads \<^verbatim>\<open>options['dest-network']\<close>
  for the invalid-destination message. With pledge \<^verbatim>\<open>p9\<close>, made to the unconfigured
  \<^verbatim>\<open>network9\<close>, a command line that adds \<^verbatim>\<open>--dest-network=network2\<close> is told that no
  environment was found for \<^verbatim>\<open>network2\<close>, and without the option for
  \<^verbatim>\<open>undefined\<close>: the two runs differ, so the option is an input of the command.
\<close>

theorem dest_network_option_read:
  "reclaim_dest_network_option = reclaim_unknown_destination(''dest-network'' := JStr ''network2'')
   \<and> getLocalAssetPledgeDetails example_env
       \<lparr>pq_sourceNetworkName = JStr ''network1'', pq_pledgeId = JStr ''p9'',
        pq_caller = JStr ''alice'', pq_ccType = JStr ''bond''\<rparr> =
     Inr \<lparr>getRecipient = ''Ym9i'', getRemotenetworkid = ''network9'',
          getExpirytimesecs = 1700000000\<rparr>
   \<and> run example_env reclaim_dest_network_option =
     ([FabricHelper
         \<lparr>fh_channel = JStr ''mychannel'', fh_contractName = ''interop'',
          fh_connProfilePath = JStr ''ccp1.json'', fh_networkName = JStr ''network1'',
          fh_mspId = JStr ''Org1MSP'', fh_discoveryEnabled = True,
          fh_userString = JStr ''alice''\<rparr>,
       WalletGet (JStr ''alice''),
       GetLocalAssetPledgeDetails
         \<lparr>pq_sourceNetworkName = JStr ''network1'', pq_pledgeId = JStr ''p9'',
          pq_caller = JStr ''alice'', pq_ccType = JStr ''bond''\<rparr>,
       PrintError ''Please use a valid --dest-network. No valid environment found for network2 ''],
      Return ())
   \<and> run example_env reclaim_dest_network_option \<noteq> run example_env reclaim_unknown_destination"
proof -
  have 1: "reclaim_dest_network_option =
      reclaim_unknown_destination(''dest-network'' := JStr ''network2'')"
    by (rule ext)
      (simp add: reclaim_dest_network_option_def reclaim_unknown_destination_def options_of_def)
  have 2: "getLocalAssetPledgeDetails example_env
       \<lparr>pq_sourceNetworkName = JStr ''network1'', pq_pledgeId = JStr ''p9'',
        pq_caller = JStr ''alice'', pq_ccType = JStr ''bond''\<rparr> =
     Inr \<lparr>getRecipient = ''Ym9i'', getRemotenetworkid = ''network9'',
          getExpirytimesecs = 1700000000\<rparr>"
    by (simp add: example_env_def example_pledges_def)
  have 3: "run example_env reclaim_dest_network_option =
     ([FabricHelper
         \<lparr>fh_channel = JStr ''mychannel'', fh_contractName = ''interop'',
          fh_connProfilePath = JStr ''ccp1.json'', fh_networkName = JStr ''network1'',
          fh_mspId = JStr ''Org1MSP'', fh_discoveryEnabled = True,
          fh_userString = JStr ''alice''\<rparr>,
       WalletGet (JStr ''alice''),
       GetLocalAssetPledgeDetails
         \<lparr>pq_sourceNetworkName = JStr ''network1'', pq_pledgeId = JStr ''p9'',
          pq_caller = JStr ''alice'', pq_ccType = JStr ''bond''\<rparr>,
       PrintError ''Please use a valid --dest-network. No valid environment found for network2 ''],
      Return ())"
    by (simp add: run_defs example_defs reclaim_dest_network_option_def)
  have 4: "run example_env reclaim_unknown_destination =
     ([FabricHelper
         \<lparr>fh_channel = JStr ''mychannel'', fh_contractName = ''interop'',
          fh_connProfilePath = JStr ''ccp1.json'', fh_networkName = JStr ''network1'',
          fh_mspId = JStr ''Org1MSP'', fh_discoveryEnabled = True,
          fh_userString = JStr ''alice''\<rparr>,
       WalletGet (JStr ''alice''),
       GetLocalAssetPledgeDetails
         \<lparr>pq_sourceNetworkName = JStr ''network1'', pq_pledgeId = JStr ''p9'',
          pq_caller = JStr ''alice'', pq_ccType = JStr ''bond''\<rparr>,
       PrintError ''Please use a valid --dest-network. No valid environment found for undefined ''],
      Return ())"
    by (simp add: run_defs example_defs reclaim_unknown_destination_def)
  have 5: "run example_env reclaim_dest_network_option \<noteq> run example_env reclaim_unknown_destination"
    unfolding 3 4 by simp
  from 1 2 3 5 show ?thesis
    by blast
qed

end
